theory Spec2Isabelle
  imports Complex_Main
begin

section \<open>The rules engine as the controller sees it\<close>

text \<open>
  The board interaction controller delegates every rule of chess to the chess.js library,
  which is not part of the repository.  The controller is therefore modelled over an
  arbitrary engine: a record of the operations the scripts call on the \<open>game\<close> object.
  chess.js mutates the game object in place; here each mutating operation returns the new
  game value.  \<open>game.move\<close> and \<open>game.undo\<close> return \<open>null\<close> (here \<open>None\<close>) when
  nothing was applied or undone.
\<close>

datatype color = White | Black

datatype ptype = Pawn | Knight | Bishop | Rook | Queen | King

record piece =
  ptype :: ptype
  pcolor :: color

type_synonym square = string

text \<open>The object literal handed to \<open>game.move\<close>: \<open>{ from, to, promotion }\<close>.\<close>

record move_obj =
  mfrom :: square
  mto :: square
  mpromotion :: "string option"

text \<open>A verbose move as returned by \<open>game.moves({verbose: true})\<close>, \<open>game.move\<close>
  and \<open>game.undo\<close>.\<close>

record vmove =
  vfrom :: square
  vto :: square
  vpromotion :: "string option"
  vflags :: string
  vsan :: string

record 'g engine =
  turn :: "'g \<Rightarrow> color"
  get :: "'g \<Rightarrow> square \<Rightarrow> piece option"
  moves :: "'g \<Rightarrow> square option \<Rightarrow> vmove list"
  move :: "'g \<Rightarrow> move_obj \<Rightarrow> 'g \<times> vmove option"
  undo :: "'g \<Rightarrow> 'g \<times> vmove option"
  reset :: "'g \<Rightarrow> 'g"
  history :: "'g \<Rightarrow> string list"
  in_check :: "'g \<Rightarrow> bool"
  in_checkmate :: "'g \<Rightarrow> bool"
  in_draw :: "'g \<Rightarrow> bool"
  game_over :: "'g \<Rightarrow> bool"

text \<open>Passing a verbose move back to \<open>game.move\<close> uses its from, to and promotion
  fields.\<close>

definition moveObjOf :: "vmove \<Rightarrow> move_obj" where
  "moveObjOf m = \<lparr>mfrom = vfrom m, mto = vto m, mpromotion = vpromotion m\<rparr>"

section \<open>Squares and the page\<close>

text \<open>The name of the square in row \<open>r\<close>, column \<open>c\<close> of \<open>game.board()\<close>:
  \<open>'abcdefgh'[c] + (8 - r)\<close>.  Entry \<open>[r][c]\<close> of \<open>game.board()\<close> is read as
  \<open>get\<close> of that name.\<close>

definition squareName :: "nat \<Rightarrow> nat \<Rightarrow> square" where
  "squareName r c = [''abcdefgh'' ! c, ''0123456789'' ! (8 - r)]"

definition boardSquares :: "square list" where
  "boardSquares = concat (map (\<lambda>r. map (\<lambda>c. squareName r c) [0..<8]) [0..<8])"

definition displaySquares :: "bool \<Rightarrow> square list" where
  "displaySquares flp =
     concat (map (\<lambda>rD. map (\<lambda>cD. squareName (if flp then 7 - rD else rD)
                                             (if flp then 7 - cD else cD)) [0..<8]) [0..<8])"

text \<open>
  Of the page only what the controller reads back is kept: the children of the board
  container.  A square element carries its \<open>data-square\<close> name and whether it holds a
  piece image; the threat overlay and the piece glyph of a running animation are children
  of the board container too.  The status line, the move list and the arrows are written
  and never read, and are left out.
\<close>

datatype node = SquareEl square bool | Overlay | AnimPiece nat

fun dataSquare :: "node \<Rightarrow> square option" where
  "dataSquare (SquareEl sq img) = Some sq"
| "dataSquare Overlay = None"
| "dataSquare (AnimPiece k) = None"

fun hasImg :: "node \<Rightarrow> bool" where
  "hasImg (SquareEl sq img) = img"
| "hasImg Overlay = False"
| "hasImg (AnimPiece k) = False"

text \<open>\<open>fromEl.innerHTML = ''\<close> on the first child whose \<open>data-square\<close> is the given
  name.\<close>

fun clearSquare :: "square \<Rightarrow> node list \<Rightarrow> node list" where
  "clearSquare sq [] = []"
| "clearSquare sq (n # ns) =
     (if dataSquare n = Some sq then SquareEl sq False # ns else n # clearSquare sq ns)"

text \<open>Pending \<open>setTimeout\<close> callbacks: the thinking delay of \<open>triggerAiMove\<close> and the
  end of an animation (with the move and the glyph it captured).\<close>

datatype timer = Think | Anim vmove nat

datatype error = NotFoundError | TypeError

section \<open>Controller state\<close>

text \<open>
  The three scripts share their state variables.  The plain script (no opponent) has the
  game and the selection; the script with the opponent adds the colours, the busy flag and
  its timers; app_ai.js adds the redo stack and the display flags.  \<open>fresh\<close> numbers the
  animation glyphs, so that two glyphs are two nodes.  \<open>overlayOutside\<close> says whether the
  page itself provides an element with id \<open>threat-overlay\<close> outside the board container.
\<close>

record 'g plain_state =
  game :: 'g
  selectedSquare :: "square option"
  possibleMoves :: "square list"
  children :: "node list"

record 'g ai_state = "'g plain_state" +
  playerColor :: color
  aiColor :: color
  aiThinking :: bool
  timers :: "timer list"
  fresh :: nat

record 'g full_state = "'g ai_state" +
  redoStack :: "vmove list"
  showThreats :: bool
  flipped :: bool
  overlayOutside :: bool

text \<open>\<open>selectedSquare && possibleMoves.includes(square)\<close>: the selected square when the
  test succeeds.  The empty string is falsy.\<close>

definition moveBranch :: "square option \<Rightarrow> square list \<Rightarrow> square \<Rightarrow> square option" where
  "moveBranch sel poss sq =
     (case sel of
        None \<Rightarrow> None
      | Some f \<Rightarrow> if f \<noteq> [] \<and> sq \<in> set poss then Some f else None)"

section \<open>app_ai.js: rendering\<close>

text \<open>The loop of \<open>renderBoard\<close>: the board container is emptied and the 64 squares are
  appended in display order, each with an image when \<open>game.board()\<close> has a piece there.\<close>

definition rebuildBoard :: "'g engine \<Rightarrow> 'g full_state \<Rightarrow> 'g full_state" where
  "rebuildBoard E s =
     s\<lparr>children := map (\<lambda>sq. SquareEl sq (get E (game s) sq \<noteq> None))
                        (displaySquares (flipped s))\<rparr>"

text \<open>The test of \<open>verifyBoard\<close>: true when the rendered squares differ from the game.\<close>

definition verifyMismatch :: "'g engine \<Rightarrow> 'g full_state \<Rightarrow> bool" where
  "verifyMismatch E s =
     (let squares = children s in
      if length squares \<noteq> 64 then True
      else list_ex (\<lambda>squareName'.
             let squareEl = find (\<lambda>el. dataSquare el = Some squareName') squares;
                 piece = get E (game s) squareName'
             in if piece \<noteq> None
                then (case squareEl of None \<Rightarrow> True | Some el \<Rightarrow> \<not> hasImg el)
                else (case squareEl of None \<Rightarrow> False | Some el \<Rightarrow> hasImg el))
           boardSquares)"

text \<open>
  \<open>updateThreatOverlay\<close> changes the game while it looks for checking moves: for every
  piece of the opponent on the board as it was at the start, it asks for the moves from
  that square and plays and takes back each of them.
\<close>

definition threatSim :: "'g engine \<Rightarrow> color \<Rightarrow> 'g \<Rightarrow> 'g" where
  "threatSim E opponent g0 =
     fold (\<lambda>fromSquare g.
             case get E g0 fromSquare of
               None \<Rightarrow> g
             | Some piece \<Rightarrow>
                 if pcolor piece = opponent
                 then fold (\<lambda>m g'. fst (undo E (fst (move E g' (moveObjOf m)))))
                        (moves E g (Some fromSquare)) g
                 else g)
          boardSquares g0"

definition overlayPresent :: "'g full_state \<Rightarrow> bool" where
  "overlayPresent s = (Overlay \<in> set (children s) \<or> overlayOutside s)"

definition updateThreatOverlay :: "'g engine \<Rightarrow> 'g full_state \<Rightarrow> 'g full_state" where
  "updateThreatOverlay E s =
     (if \<not> overlayPresent s then s
      else if \<not> showThreats s then s
      else s\<lparr>game := threatSim E (if playerColor s = White then Black else White) (game s)\<rparr>)"

definition initThreatOverlay :: "'g full_state \<Rightarrow> 'g full_state" where
  "initThreatOverlay s =
     (if overlayPresent s then s else s\<lparr>children := children s @ [Overlay]\<rparr>)"

function renderBoard :: "'g engine \<Rightarrow> 'g full_state \<Rightarrow> 'g full_state" where
  "renderBoard E s =
     (let s1 = rebuildBoard E s;
          s2 = (if verifyMismatch E s1 then renderBoard E s1 else s1)
      in updateThreatOverlay E s2)"
  by pat_completeness auto

lemma find_square_rendered:
  "find (\<lambda>el. dataSquare el = Some nm) (map (\<lambda>sq. SquareEl sq (P sq)) xs) =
     (if nm \<in> set xs then Some (SquareEl nm (P nm)) else None)"
  by (induction xs) auto

lemma upt8: "[0..<8] = [0, 1, 2, 3, 4, 5, 6, 7::nat]"
  by (simp add: upt_rec)

lemma length_displaySquares: "length (displaySquares flp) = 64"
  by (simp add: displaySquares_def upt8)

lemma set_displaySquares: "set (displaySquares flp) = set boardSquares"
  by (cases flp) (simp_all add: displaySquares_def boardSquares_def upt8 insert_commute)

lemma verify_after_rebuild: "\<not> verifyMismatch E (rebuildBoard E s)"
  by (auto simp add: verifyMismatch_def rebuildBoard_def length_displaySquares
      find_square_rendered set_displaySquares list_ex_iff)

termination renderBoard
  by (relation "{}") (simp_all add: verify_after_rebuild)

section \<open>app_ai.js: the controller\<close>

text \<open>\<open>triggerAiMove\<close> up to the \<open>setTimeout\<close>: the same in both scripts with an
  opponent.\<close>

definition triggerAiMove :: "'g engine \<Rightarrow> ('g, 'z) ai_state_scheme \<Rightarrow> ('g, 'z) ai_state_scheme" where
  "triggerAiMove E s =
     (if turn E (game s) \<noteq> aiColor s \<or> game_over E (game s) then s
      else s\<lparr>aiThinking := True, timers := timers s @ [Think]\<rparr>)"

text \<open>\<open>String.prototype.toLowerCase\<close> on the letters A to Z.  Other characters are left
  as they are: none of them becomes q, r, b or n, which is all \<open>onSquareClick\<close> asks of
  the result.\<close>

definition toLowerCase :: "string \<Rightarrow> string" where
  "toLowerCase str =
     map (\<lambda>c. case map_of (zip ''ABCDEFGHIJKLMNOPQRSTUVWXYZ''
                                  ''abcdefghijklmnopqrstuvwxyz'') c of
                 None \<Rightarrow> c
               | Some l \<Rightarrow> l) str"

text \<open>What becomes of the answer to \<open>prompt\<close>; \<open>None\<close> is a cancelled prompt.\<close>

definition promotionChoice :: "string option \<Rightarrow> string" where
  "promotionChoice choice =
     (case choice of
        None \<Rightarrow> ''q''
      | Some c \<Rightarrow>
          if c \<noteq> [] \<and> toLowerCase c \<in> set [''q'', ''r'', ''b'', ''n'']
          then toLowerCase c else ''q'')"

text \<open>\<open>square[1]\<close>: undefined on a string shorter than two characters.\<close>

definition targetRank :: "square \<Rightarrow> char option" where
  "targetRank sq = (if 1 < length sq then Some (sq ! 1) else None)"

text \<open>The \<open>promotion\<close> variable of \<open>onSquareClick\<close>; the user is asked only in the
  inner branch.\<close>

definition promotionFor :: "'g engine \<Rightarrow> 'g \<Rightarrow> square \<Rightarrow> square \<Rightarrow> string option \<Rightarrow> string option" where
  "promotionFor E g sel sq choice =
     (case get E g sel of
        None \<Rightarrow> None
      | Some movingPiece \<Rightarrow>
          if ptype movingPiece = Pawn
          then (if (pcolor movingPiece = White \<and> targetRank sq = Some (CHR ''8'')) \<or>
                   (pcolor movingPiece = Black \<and> targetRank sq = Some (CHR ''1''))
                then Some (promotionChoice choice) else None)
          else None)"

definition onSquareClick :: "'g engine \<Rightarrow> string option \<Rightarrow> square \<Rightarrow> 'g full_state \<Rightarrow> 'g full_state" where
  "onSquareClick E choice sq s =
     (if aiThinking s \<or> turn E (game s) \<noteq> playerColor s then s
      else
        let piece = get E (game s) sq in
        case moveBranch (selectedSquare s) (possibleMoves s) sq of
          Some sel \<Rightarrow>
            let promotion = promotionFor E (game s) sel sq choice;
                s1 = s\<lparr>game := fst (move E (game s)
                                   \<lparr>mfrom = sel, mto = sq, mpromotion = promotion\<rparr>),
                       selectedSquare := None, possibleMoves := [], redoStack := []\<rparr>;
                s2 = renderBoard E s1;
                s3 = updateThreatOverlay E s2
            in triggerAiMove E s3
        | None \<Rightarrow>
            (case piece of
               Some p \<Rightarrow>
                 if pcolor p = turn E (game s)
                 then renderBoard E
                        (s\<lparr>selectedSquare := Some sq,
                           possibleMoves := map vto (moves E (game s) (Some sq))\<rparr>)
                 else updateThreatOverlay E
                        (renderBoard E (s\<lparr>selectedSquare := None, possibleMoves := []\<rparr>))
             | None \<Rightarrow>
                 updateThreatOverlay E
                   (renderBoard E (s\<lparr>selectedSquare := None, possibleMoves := []\<rparr>))))"

text \<open>The redo stack is a JavaScript array used with \<open>push\<close> and \<open>pop\<close>: its top is
  the last element.\<close>

definition undoLastMove :: "'g engine \<Rightarrow> 'g full_state \<Rightarrow> 'g full_state" where
  "undoLastMove E s =
     (if aiThinking s then s
      else case undo E (game s) of
             (g', None) \<Rightarrow> s\<lparr>game := g'\<rparr>
           | (g', Some undone) \<Rightarrow>
               updateThreatOverlay E
                 (renderBoard E
                    (s\<lparr>game := g', redoStack := redoStack s @ [undone],
                       selectedSquare := None, possibleMoves := [], aiThinking := False\<rparr>)))"

text \<open>\<open>redoObj\<close>: from and to, and the promotion when it is truthy.\<close>

definition redoObj :: "vmove \<Rightarrow> move_obj" where
  "redoObj m =
     \<lparr>mfrom = vfrom m, mto = vto m,
      mpromotion = (case vpromotion m of
                      None \<Rightarrow> None
                    | Some pr \<Rightarrow> if pr \<noteq> [] then Some pr else None)\<rparr>"

definition redoMove :: "'g engine \<Rightarrow> 'g full_state \<Rightarrow> 'g full_state" where
  "redoMove E s =
     (if aiThinking s \<or> length (redoStack s) = 0 then s
      else
        let m = last (redoStack s);
            s1 = s\<lparr>redoStack := butlast (redoStack s)\<rparr>;
            s2 = s1\<lparr>game := fst (move E (game s1) (redoObj m)),
                    selectedSquare := None, possibleMoves := []\<rparr>
        in updateThreatOverlay E (renderBoard E s2))"

definition flipBoard :: "'g engine \<Rightarrow> 'g full_state \<Rightarrow> 'g full_state" where
  "flipBoard E s = renderBoard E (s\<lparr>flipped := \<not> flipped s\<rparr>)"

definition toggleThreats :: "'g engine \<Rightarrow> 'g full_state \<Rightarrow> 'g full_state" where
  "toggleThreats E s = updateThreatOverlay E (s\<lparr>showThreats := \<not> showThreats s\<rparr>)"

text \<open>\<open>resetGame\<close>; \<open>r\<close> is the value of \<open>Math.random()\<close>, of which only the
  comparison with 0.5 is used.\<close>

definition resetGame :: "'g engine \<Rightarrow> real \<Rightarrow> 'g full_state \<Rightarrow> 'g full_state" where
  "resetGame E r s =
     (let pc = (if r < 0.5 then White else Black);
          s1 = s\<lparr>game := reset E (game s), playerColor := pc,
                 aiColor := (if pc = White then Black else White),
                 selectedSquare := None, possibleMoves := [], aiThinking := False,
                 flipped := False\<rparr>;
          s2 = updateThreatOverlay E (renderBoard E s1);
          s3 = (if aiColor s2 = White then triggerAiMove E s2 else s2)
      in s3\<lparr>redoStack := []\<rparr>)"

text \<open>The callback \<open>triggerAiMove\<close> hands to \<open>animateAIMove\<close>: the only place where the
  opponent's move reaches the game.\<close>

definition aiCommit :: "'g engine \<Rightarrow> vmove \<Rightarrow> 'g full_state \<Rightarrow> 'g full_state" where
  "aiCommit E m s =
     updateThreatOverlay E
       (renderBoard E
          (s\<lparr>game := fst (move E (game s)
                            \<lparr>mfrom = vfrom m, mto = vto m, mpromotion = vpromotion m\<rparr>),
             selectedSquare := None, possibleMoves := [], aiThinking := False,
             redoStack := []\<rparr>))"

text \<open>
  \<open>animateAIMove\<close> up to its \<open>setTimeout\<close>.  Without a piece on the source square, or
  without both square elements, the callback runs at once.  Otherwise the glyph is
  appended to the board container, the source square is emptied and the end of the
  animation is scheduled.  The \<open>requestAnimationFrame\<close> callback only restyles the glyph.
\<close>

definition animateAIMove :: "'g engine \<Rightarrow> vmove \<Rightarrow> 'g full_state \<Rightarrow> 'g full_state" where
  "animateAIMove E m s =
     (case get E (game s) (vfrom m) of
        None \<Rightarrow> aiCommit E m s
      | Some piece \<Rightarrow>
          let squares = children s;
              fromEl = find (\<lambda>el. dataSquare el = Some (vfrom m)) squares;
              toEl = find (\<lambda>el. dataSquare el = Some (vto m)) squares
          in if fromEl = None \<or> toEl = None then aiCommit E m s
             else s\<lparr>children := clearSquare (vfrom m) (children s @ [AnimPiece (fresh s)]),
                    timers := timers s @ [Anim m (fresh s)],
                    fresh := Suc (fresh s)\<rparr>)"

text \<open>
  The two timer callbacks.  A callback that throws ends there: the left summand carries
  the error and the state as the callback left it.  \<open>removeChild\<close> throws a
  \<open>NotFoundError\<close> when the glyph is no longer a child of the board container; reading
  \<open>move.from\<close> of an undefined array element throws a \<open>TypeError\<close>.
\<close>

definition animTimeout :: "'g engine \<Rightarrow> vmove \<Rightarrow> nat \<Rightarrow> 'g full_state \<Rightarrow> (error \<times> 'g full_state) + 'g full_state" where
  "animTimeout E m k s =
     (if AnimPiece k \<in> set (children s)
      then Inr (aiCommit E m (s\<lparr>children := remove1 (AnimPiece k) (children s)\<rparr>))
      else Inl (NotFoundError, s))"

text \<open>
  \<open>Math.random()\<close> and its product with the number of moves are the runtime's, computed
  in IEEE double precision, which is not modelled.  The callback is given the number \<open>i\<close>
  that \<open>Math.floor(Math.random() * legalMoves.length)\<close> evaluates to.  An index outside
  the array reads \<open>undefined\<close>.
\<close>

definition thinkTimeout :: "'g engine \<Rightarrow> int \<Rightarrow> 'g full_state \<Rightarrow> (error \<times> 'g full_state) + 'g full_state" where
  "thinkTimeout E i s =
     (let legalMoves = moves E (game s) None in
      if length legalMoves = 0 then Inr (s\<lparr>aiThinking := False\<rparr>)
      else
        let s1 = s\<lparr>selectedSquare := None, possibleMoves := []\<rparr>
        in if 0 \<le> i \<and> i < int (length legalMoves)
           then Inr (animateAIMove E (legalMoves ! nat i) s1)
           else Inl (TypeError, s1))"

text \<open>What the page can do to the controller: the clicks on squares and buttons (a click
  on a square comes with the answer the user would give to the prompt, a reset with the
  value of \<open>Math.random()\<close>), and a pending timer running out (given by its place among
  the pending timers, with the index the callback of a thinking delay draws).\<close>

datatype event =
    Click square "string option"
  | UndoBtn
  | RedoBtn
  | ResetBtn real
  | FlipBtn
  | ThreatBtn
  | Timeout nat int

definition afterCallback :: "(error \<times> 's) + 's \<Rightarrow> 's" where
  "afterCallback res = (case res of Inl (e, s) \<Rightarrow> s | Inr s \<Rightarrow> s)"

definition dropTimer :: "nat \<Rightarrow> timer list \<Rightarrow> timer list" where
  "dropTimer i ts = take i ts @ drop (Suc i) ts"

fun step :: "'g engine \<Rightarrow> event \<Rightarrow> 'g full_state \<Rightarrow> 'g full_state" where
  "step E (Click sq choice) s = onSquareClick E choice sq s"
| "step E UndoBtn s = undoLastMove E s"
| "step E RedoBtn s = redoMove E s"
| "step E (ResetBtn r) s = resetGame E r s"
| "step E FlipBtn s = flipBoard E s"
| "step E ThreatBtn s = toggleThreats E s"
| "step E (Timeout k i) s =
     (if k < length (timers s)
      then let s' = s\<lparr>timers := dropTimer k (timers s)\<rparr> in
           case timers s ! k of
             Think \<Rightarrow> afterCallback (thinkTimeout E i s')
           | Anim m k \<Rightarrow> afterCallback (animTimeout E m k s')
      else s)"

text \<open>
  The handler of \<open>DOMContentLoaded\<close>: the variables are initialised, the overlay is
  created, the board is drawn and the opponent is triggered when it plays White.  \<open>g0\<close>
  is \<open>new Chess()\<close>, \<open>r\<close> the value of \<open>Math.random()\<close>, \<open>outside\<close> whether the
  page has a threat overlay of its own.
\<close>

definition pageLoaded :: "'g engine \<Rightarrow> 'g \<Rightarrow> real \<Rightarrow> bool \<Rightarrow> 'g full_state" where
  "pageLoaded E g0 r outside =
     (let pc = (if r < 0.5 then White else Black);
          s0 = \<lparr>game = g0, selectedSquare = None, possibleMoves = [], children = [],
                playerColor = pc, aiColor = (if pc = White then Black else White),
                aiThinking = False, timers = [], fresh = 0,
                redoStack = [], showThreats = False, flipped = False,
                overlayOutside = outside\<rparr>;
          s1 = renderBoard E (initThreatOverlay s0)
      in if aiColor s1 = White then triggerAiMove E s1 else s1)"

section \<open>The script with the opponent and no undo (src/unnamed/part_000)\<close>

text \<open>
  This script draws the pieces as text, in the fixed orientation, and has neither
  \<open>verifyBoard\<close> nor a threat overlay; its page has the board only.  The flag of a
  square element says here whether the square shows a piece.  The plain script at the end
  of app_ai.js renders in the same way.
\<close>

definition renderBoard_basic :: "'g engine \<Rightarrow> ('g, 'z) plain_state_scheme \<Rightarrow> ('g, 'z) plain_state_scheme" where
  "renderBoard_basic E s =
     s\<lparr>children := map (\<lambda>sq. SquareEl sq (get E (game s) sq \<noteq> None)) boardSquares\<rparr>"

definition onSquareClick_basic :: "'g engine \<Rightarrow> square \<Rightarrow> 'g ai_state \<Rightarrow> 'g ai_state" where
  "onSquareClick_basic E sq s =
     (if aiThinking s \<or> turn E (game s) \<noteq> playerColor s then s
      else
        let piece = get E (game s) sq in
        case moveBranch (selectedSquare s) (possibleMoves s) sq of
          Some sel \<Rightarrow>
            triggerAiMove E
              (renderBoard_basic E
                 (s\<lparr>game := fst (move E (game s) \<lparr>mfrom = sel, mto = sq, mpromotion = None\<rparr>),
                    selectedSquare := None, possibleMoves := []\<rparr>))
        | None \<Rightarrow>
            (case piece of
               Some p \<Rightarrow>
                 if pcolor p = turn E (game s)
                 then renderBoard_basic E
                        (s\<lparr>selectedSquare := Some sq,
                           possibleMoves := map vto (moves E (game s) (Some sq))\<rparr>)
                 else renderBoard_basic E (s\<lparr>selectedSquare := None, possibleMoves := []\<rparr>)
             | None \<Rightarrow>
                 renderBoard_basic E (s\<lparr>selectedSquare := None, possibleMoves := []\<rparr>)))"

definition aiCommit_basic :: "'g engine \<Rightarrow> vmove \<Rightarrow> 'g ai_state \<Rightarrow> 'g ai_state" where
  "aiCommit_basic E m s =
     renderBoard_basic E
       (s\<lparr>game := fst (move E (game s)
                         \<lparr>mfrom = vfrom m, mto = vto m, mpromotion = vpromotion m\<rparr>),
          selectedSquare := None, possibleMoves := [], aiThinking := False\<rparr>)"

definition animateAIMove_basic :: "'g engine \<Rightarrow> vmove \<Rightarrow> 'g ai_state \<Rightarrow> 'g ai_state" where
  "animateAIMove_basic E m s =
     (case get E (game s) (vfrom m) of
        None \<Rightarrow> aiCommit_basic E m s
      | Some piece \<Rightarrow>
          let squares = children s;
              fromEl = find (\<lambda>el. dataSquare el = Some (vfrom m)) squares;
              toEl = find (\<lambda>el. dataSquare el = Some (vto m)) squares
          in if fromEl = None \<or> toEl = None then aiCommit_basic E m s
             else s\<lparr>children := clearSquare (vfrom m) (children s @ [AnimPiece (fresh s)]),
                    timers := timers s @ [Anim m (fresh s)],
                    fresh := Suc (fresh s)\<rparr>)"

definition animTimeout_basic :: "'g engine \<Rightarrow> vmove \<Rightarrow> nat \<Rightarrow> 'g ai_state \<Rightarrow> (error \<times> 'g ai_state) + 'g ai_state" where
  "animTimeout_basic E m k s =
     (if AnimPiece k \<in> set (children s)
      then Inr (aiCommit_basic E m (s\<lparr>children := remove1 (AnimPiece k) (children s)\<rparr>))
      else Inl (NotFoundError, s))"

text \<open>Here the callback of the thinking delay shows the opponent's move as the selection
  before it animates it.\<close>

definition thinkTimeout_basic :: "'g engine \<Rightarrow> int \<Rightarrow> 'g ai_state \<Rightarrow> (error \<times> 'g ai_state) + 'g ai_state" where
  "thinkTimeout_basic E i s =
     (let legalMoves = moves E (game s) None in
      if length legalMoves = 0 then Inr (s\<lparr>aiThinking := False\<rparr>)
      else
        if 0 \<le> i \<and> i < int (length legalMoves)
        then let m = legalMoves ! nat i;
                 s1 = renderBoard_basic E
                        (s\<lparr>selectedSquare := Some (vfrom m), possibleMoves := [vto m]\<rparr>)
             in Inr (animateAIMove_basic E m s1)
        else Inl (TypeError, s))"

text \<open>The page of this script has no buttons: only clicks on squares and timers reach the
  controller.\<close>

fun step_basic :: "'g engine \<Rightarrow> event \<Rightarrow> 'g ai_state \<Rightarrow> 'g ai_state" where
  "step_basic E (Click sq choice) s = onSquareClick_basic E sq s"
| "step_basic E (Timeout k i) s =
     (if k < length (timers s)
      then let s' = s\<lparr>timers := dropTimer k (timers s)\<rparr> in
           case timers s ! k of
             Think \<Rightarrow> afterCallback (thinkTimeout_basic E i s')
           | Anim m k \<Rightarrow> afterCallback (animTimeout_basic E m k s')
      else s)"
| "step_basic E ev s = s"

section \<open>The plain script (second script of app_ai.js)\<close>

definition onSquareClick_plain :: "'g engine \<Rightarrow> square \<Rightarrow> 'g plain_state \<Rightarrow> 'g plain_state" where
  "onSquareClick_plain E sq s =
     (let piece = get E (game s) sq in
      case moveBranch (selectedSquare s) (possibleMoves s) sq of
        Some sel \<Rightarrow>
          renderBoard_basic E
            (s\<lparr>game := fst (move E (game s) \<lparr>mfrom = sel, mto = sq, mpromotion = None\<rparr>),
               selectedSquare := None, possibleMoves := []\<rparr>)
      | None \<Rightarrow>
          (case piece of
             Some p \<Rightarrow>
               if pcolor p = turn E (game s)
               then renderBoard_basic E
                      (s\<lparr>selectedSquare := Some sq,
                         possibleMoves := map vto (moves E (game s) (Some sq))\<rparr>)
               else renderBoard_basic E (s\<lparr>selectedSquare := None, possibleMoves := []\<rparr>)
           | None \<Rightarrow>
               renderBoard_basic E (s\<lparr>selectedSquare := None, possibleMoves := []\<rparr>)))"

section \<open>The selection\<close>

text \<open>The selection is the selected square together with its destinations.\<close>

definition selectionOf :: "('g, 'z) plain_state_scheme \<Rightarrow> square option \<times> square list" where
  "selectionOf s = (selectedSquare s, possibleMoves s)"

section \<open>A small engine for the examples\<close>

text \<open>
  The examples below run the controller on a rule set small enough to evaluate: a pawn
  steps one square forward onto an empty square and promotes on the last rank, a king
  steps one square along its file, other pieces do not move.  As in chess.js, \<open>move\<close>
  takes the first generated move with the given from and to whose promotion, if it has
  one, is the requested one; \<open>undo\<close> restores the position before the last move; a
  position with kings only is a draw by insufficient material although the kings can
  still move.
\<close>

record mini =
  mboard :: "(square \<times> piece) list"
  mturn :: color
  mlog :: "((square \<times> piece) list \<times> vmove) list"

definition rankUp :: "char \<Rightarrow> char option" where
  "rankUp r = map_of (zip ''1234567'' ''2345678'') r"

definition rankDown :: "char \<Rightarrow> char option" where
  "rankDown r = map_of (zip ''2345678'' ''1234567'') r"

definition other :: "color \<Rightarrow> color" where
  "other c = (if c = White then Black else White)"

definition miniStep :: "(square \<times> piece) list \<Rightarrow> color \<Rightarrow> square \<Rightarrow> char \<Rightarrow> char option \<Rightarrow> vmove list" where
  "miniStep brd side sq f ro =
     (case ro of
        None \<Rightarrow> []
      | Some r' \<Rightarrow>
          (case map_of brd [f, r'] of
             None \<Rightarrow> [\<lparr>vfrom = sq, vto = [f, r'], vpromotion = None, vflags = ''n'',
                       vsan = sq @ [f, r']\<rparr>]
           | Some q \<Rightarrow>
               if pcolor q = side then []
               else [\<lparr>vfrom = sq, vto = [f, r'], vpromotion = None, vflags = ''c'',
                      vsan = sq @ [f, r']\<rparr>]))"

definition miniMovesOf :: "(square \<times> piece) list \<Rightarrow> color \<Rightarrow> square \<times> piece \<Rightarrow> vmove list" where
  "miniMovesOf brd side e =
     (let sq = fst e; p = snd e in
      if pcolor p \<noteq> side \<or> length sq \<noteq> 2 then []
      else
        let f = sq ! 0; r = sq ! 1 in
        case ptype p of
          Pawn \<Rightarrow>
            (case (if side = White then rankUp r else rankDown r) of
               None \<Rightarrow> []
             | Some r' \<Rightarrow>
                 if map_of brd [f, r'] \<noteq> None then []
                 else if r' = (if side = White then CHR ''8'' else CHR ''1'')
                 then map (\<lambda>pr. \<lparr>vfrom = sq, vto = [f, r'], vpromotion = Some pr,
                                   vflags = ''np'', vsan = sq @ [f, r'] @ pr\<rparr>)
                        [''q'', ''r'', ''b'', ''n'']
                 else [\<lparr>vfrom = sq, vto = [f, r'], vpromotion = None, vflags = ''n'',
                        vsan = sq @ [f, r']\<rparr>])
        | King \<Rightarrow> miniStep brd side sq f (rankUp r) @ miniStep brd side sq f (rankDown r)
        | _ \<Rightarrow> [])"

definition miniMoves :: "mini \<Rightarrow> square option \<Rightarrow> vmove list" where
  "miniMoves g sqo =
     (let every = concat (map (miniMovesOf (mboard g) (mturn g)) (mboard g)) in
      case sqo of None \<Rightarrow> every | Some sq \<Rightarrow> filter (\<lambda>m. vfrom m = sq) every)"

definition promoted :: "piece \<Rightarrow> vmove \<Rightarrow> piece" where
  "promoted p m =
     (case vpromotion m of
        None \<Rightarrow> p
      | Some pr \<Rightarrow>
          p\<lparr>ptype := (if pr = ''r'' then Rook else if pr = ''b'' then Bishop
                       else if pr = ''n'' then Knight else Queen)\<rparr>)"

definition miniMove :: "mini \<Rightarrow> move_obj \<Rightarrow> mini \<times> vmove option" where
  "miniMove g obj =
     (case find (\<lambda>m. vfrom m = mfrom obj \<and> vto m = mto obj \<and>
                      (vpromotion m = None \<or> mpromotion obj = vpromotion m))
             (miniMoves g None) of
        None \<Rightarrow> (g, None)
      | Some m \<Rightarrow>
          (case map_of (mboard g) (vfrom m) of
             None \<Rightarrow> (g, None)
           | Some p \<Rightarrow>
               (\<lparr>mboard = (vto m, promoted p m) #
                           filter (\<lambda>e. fst e \<noteq> vfrom m \<and> fst e \<noteq> vto m) (mboard g),
                 mturn = other (mturn g),
                 mlog = mlog g @ [(mboard g, m)]\<rparr>, Some m)))"

definition miniUndo :: "mini \<Rightarrow> mini \<times> vmove option" where
  "miniUndo g =
     (if mlog g = [] then (g, None)
      else (\<lparr>mboard = fst (last (mlog g)), mturn = other (mturn g), mlog = butlast (mlog g)\<rparr>,
            Some (snd (last (mlog g)))))"

definition miniDraw :: "mini \<Rightarrow> bool" where
  "miniDraw g = (list_all (\<lambda>e. ptype (snd e) = King) (mboard g) \<or> miniMoves g None = [])"

definition miniStart :: mini where
  "miniStart =
     \<lparr>mboard = [(''e1'', \<lparr>ptype = King, pcolor = White\<rparr>),
                (''e2'', \<lparr>ptype = Pawn, pcolor = White\<rparr>),
                (''e7'', \<lparr>ptype = Pawn, pcolor = Black\<rparr>),
                (''e8'', \<lparr>ptype = King, pcolor = Black\<rparr>)],
      mturn = White, mlog = []\<rparr>"

definition miniEngine :: "mini engine" where
  "miniEngine =
     \<lparr>turn = mturn, get = (\<lambda>g. map_of (mboard g)), moves = miniMoves, move = miniMove,
      undo = miniUndo, reset = (\<lambda>g. miniStart), history = (\<lambda>g. map (\<lambda>e. vsan (snd e)) (mlog g)),
      in_check = (\<lambda>g. False), in_checkmate = (\<lambda>g. False), in_draw = miniDraw,
      game_over = miniDraw\<rparr>"

text \<open>A page state around a game: the board rendered, nothing selected, no timer
  pending, the human playing the given colour.\<close>

definition pageOf :: "'g engine \<Rightarrow> 'g \<Rightarrow> color \<Rightarrow> 'g full_state" where
  "pageOf E g human =
     rebuildBoard E
       \<lparr>game = g, selectedSquare = None, possibleMoves = [], children = [],
        playerColor = human, aiColor = (if human = White then Black else White),
        aiThinking = False, timers = [], fresh = 0,
        redoStack = [], showThreats = False, flipped = False, overlayOutside = False\<rparr>"

definition pageOf_basic :: "'g engine \<Rightarrow> 'g \<Rightarrow> color \<Rightarrow> 'g ai_state" where
  "pageOf_basic E g human =
     renderBoard_basic E
       \<lparr>game = g, selectedSquare = None, possibleMoves = [], children = [],
        playerColor = human, aiColor = (if human = White then Black else White),
        aiThinking = False, timers = [], fresh = 0\<rparr>"

text \<open>Games of the small engine used in the examples: a white pawn about to promote, and
  the start position after the pawn move e2 to e3.\<close>

definition promoGame :: mini where
  "promoGame =
     \<lparr>mboard = [(''e1'', \<lparr>ptype = King, pcolor = White\<rparr>),
                (''e7'', \<lparr>ptype = Pawn, pcolor = White\<rparr>),
                (''a8'', \<lparr>ptype = King, pcolor = Black\<rparr>)],
      mturn = White, mlog = []\<rparr>"

definition pawnE3 :: vmove where
  "pawnE3 = \<lparr>vfrom = ''e2'', vto = ''e3'', vpromotion = None, vflags = ''n'', vsan = ''e2e3''\<rparr>"

definition pawnE6 :: vmove where
  "pawnE6 = \<lparr>vfrom = ''e7'', vto = ''e6'', vpromotion = None, vflags = ''n'', vsan = ''e7e6''\<rparr>"

definition afterE3 :: mini where
  "afterE3 =
     \<lparr>mboard = [(''e3'', \<lparr>ptype = Pawn, pcolor = White\<rparr>),
                (''e1'', \<lparr>ptype = King, pcolor = White\<rparr>),
                (''e7'', \<lparr>ptype = Pawn, pcolor = Black\<rparr>),
                (''e8'', \<lparr>ptype = King, pcolor = Black\<rparr>)],
      mturn = Black, mlog = [(mboard miniStart, pawnE3)]\<rparr>"

text \<open>Further games: kings only, a draw by insufficient material; and a position
  where Black, to move, has no move.\<close>

definition kingsOnly :: mini where
  "kingsOnly =
     \<lparr>mboard = [(''e1'', \<lparr>ptype = King, pcolor = White\<rparr>),
                (''e8'', \<lparr>ptype = King, pcolor = Black\<rparr>)],
      mturn = White, mlog = []\<rparr>"


text \<open>Pages on which the opponent, playing Black, has been triggered after the pawn move
  e2 to e3, and the page of app_ai.js once the thinking delay has run out and the animation
  of the reply is under way.\<close>

definition thinkingPage :: "mini full_state" where
  "thinkingPage = triggerAiMove miniEngine (pageOf miniEngine afterE3 White)"

definition animatingPage :: "mini full_state" where
  "animatingPage = step miniEngine (Timeout 0 0) thinkingPage"

definition thinkingPage_basic :: "mini ai_state" where
  "thinkingPage_basic = triggerAiMove miniEngine (pageOf_basic miniEngine afterE3 White)"

section \<open>What the theorems ask of the engine\<close>

text \<open>
  The controller cannot make the engine take back what it played.  Where a theorem speaks
  of the game after the threat overlay has been refreshed, it asks this of the engine at
  that game: each move it lists from a square of the board, played and then undone, gives
  the game back.  chess.js restores the position, the side to move and its history on
  \<open>undo\<close>.
\<close>

definition simRestores :: "'g engine \<Rightarrow> 'g \<Rightarrow> bool" where
  "simRestores E g =
     (\<forall>sq \<in> set boardSquares. \<forall>m \<in> set (moves E g (Some sq)).
        fst (undo E (fst (move E g (moveObjOf m)))) = g)"

section \<open>Rendering leaves the controller's variables alone\<close>

lemma renderBoard_eq: "renderBoard E s = updateThreatOverlay E (rebuildBoard E s)"
  by (simp add: verify_after_rebuild)

declare renderBoard.simps [simp del]

lemma rebuildBoard_fields [simp]:
  "game (rebuildBoard E s) = game s"
  "selectedSquare (rebuildBoard E s) = selectedSquare s"
  "possibleMoves (rebuildBoard E s) = possibleMoves s"
  "playerColor (rebuildBoard E s) = playerColor s"
  "aiColor (rebuildBoard E s) = aiColor s"
  "aiThinking (rebuildBoard E s) = aiThinking s"
  "timers (rebuildBoard E s) = timers s"
  "fresh (rebuildBoard E s) = fresh s"
  "redoStack (rebuildBoard E s) = redoStack s"
  "showThreats (rebuildBoard E s) = showThreats s"
  "flipped (rebuildBoard E s) = flipped s"
  "overlayOutside (rebuildBoard E s) = overlayOutside s"
  by (simp_all add: rebuildBoard_def)

lemma updateThreatOverlay_fields [simp]:
  "selectedSquare (updateThreatOverlay E s) = selectedSquare s"
  "possibleMoves (updateThreatOverlay E s) = possibleMoves s"
  "children (updateThreatOverlay E s) = children s"
  "playerColor (updateThreatOverlay E s) = playerColor s"
  "aiColor (updateThreatOverlay E s) = aiColor s"
  "aiThinking (updateThreatOverlay E s) = aiThinking s"
  "timers (updateThreatOverlay E s) = timers s"
  "fresh (updateThreatOverlay E s) = fresh s"
  "redoStack (updateThreatOverlay E s) = redoStack s"
  "showThreats (updateThreatOverlay E s) = showThreats s"
  "flipped (updateThreatOverlay E s) = flipped s"
  "overlayOutside (updateThreatOverlay E s) = overlayOutside s"
  by (simp_all add: updateThreatOverlay_def)

lemma renderBoard_fields [simp]:
  "selectedSquare (renderBoard E s) = selectedSquare s"
  "possibleMoves (renderBoard E s) = possibleMoves s"
  "playerColor (renderBoard E s) = playerColor s"
  "aiColor (renderBoard E s) = aiColor s"
  "aiThinking (renderBoard E s) = aiThinking s"
  "timers (renderBoard E s) = timers s"
  "fresh (renderBoard E s) = fresh s"
  "redoStack (renderBoard E s) = redoStack s"
  "showThreats (renderBoard E s) = showThreats s"
  "flipped (renderBoard E s) = flipped s"
  "overlayOutside (renderBoard E s) = overlayOutside s"
  by (simp_all add: renderBoard_eq)

lemma children_rebuildBoard:
  "children (rebuildBoard E s) =
     map (\<lambda>sq. SquareEl sq (get E (game s) sq \<noteq> None)) (displaySquares (flipped s))"
  by (simp add: rebuildBoard_def)

lemma children_renderBoard: "children (renderBoard E s) = children (rebuildBoard E s)"
  by (simp add: renderBoard_eq)

lemma triggerAiMove_fields [simp]:
  "game (triggerAiMove E s) = game s"
  "selectedSquare (triggerAiMove E s) = selectedSquare s"
  "possibleMoves (triggerAiMove E s) = possibleMoves s"
  "children (triggerAiMove E s) = children s"
  "playerColor (triggerAiMove E s) = playerColor s"
  "aiColor (triggerAiMove E s) = aiColor s"
  by (simp_all add: triggerAiMove_def)

lemma triggerAiMove_more [simp]: "ai_state.more (triggerAiMove E s) = ai_state.more s"
  by (simp add: triggerAiMove_def)

lemma renderBoard_basic_fields [simp]:
  "game (renderBoard_basic E s) = game s"
  "selectedSquare (renderBoard_basic E s) = selectedSquare s"
  "possibleMoves (renderBoard_basic E s) = possibleMoves s"
  "plain_state.more (renderBoard_basic E s) = plain_state.more s"
  by (simp_all add: renderBoard_basic_def)

lemma triggerAiMove_full_fields [simp]:
  "redoStack (triggerAiMove E s) = redoStack s"
  "showThreats (triggerAiMove E s) = showThreats s"
  "flipped (triggerAiMove E s) = flipped s"
  "overlayOutside (triggerAiMove E s) = overlayOutside s"
  by (simp_all add: triggerAiMove_def)

lemma no_overlay_after_render: "Overlay \<notin> set (children (renderBoard E s))"
  by (auto simp add: children_renderBoard children_rebuildBoard)

text \<open>The overlay that \<open>initThreatOverlay\<close> appends to the board container does not
  outlive the first \<open>renderBoard\<close>: once the page is loaded there is an overlay only
  when the page brings its own.\<close>

lemma overlay_after_load: "overlayPresent (pageLoaded E g0 r outside) = outside"
  by (simp add: pageLoaded_def Let_def overlayPresent_def no_overlay_after_render
      initThreatOverlay_def)

section \<open>Turn gating\<close>

text \<open>
  C1.  In both scripts with an opponent, \<open>onSquareClick\<close> returns at once while the
  opponent is busy or it is not the human's turn: whatever the square, the whole state
  (game, selection, destinations, redo stack, page) is the state before the click.
\<close>

theorem turn_gating:
  "(aiThinking s \<or> turn E (game s) \<noteq> playerColor s
      \<longrightarrow> onSquareClick E choice sq s = s) \<and>
   (aiThinking s0 \<or> turn E (game s0) \<noteq> playerColor s0
      \<longrightarrow> onSquareClick_basic E sq s0 = s0)"
  by (simp add: onSquareClick_def onSquareClick_basic_def)

theorem turn_gating_witness:
  "turn miniEngine (game (pageOf miniEngine miniStart Black)) \<noteq>
     playerColor (pageOf miniEngine miniStart Black) \<and>
   onSquareClick miniEngine None ''e2'' (pageOf miniEngine miniStart Black) =
     pageOf miniEngine miniStart Black \<and>
   aiThinking ((pageOf_basic miniEngine miniStart White)\<lparr>aiThinking := True\<rparr>) \<and>
   onSquareClick_basic miniEngine ''e2''
     ((pageOf_basic miniEngine miniStart White)\<lparr>aiThinking := True\<rparr>) =
     (pageOf_basic miniEngine miniStart White)\<lparr>aiThinking := True\<rparr>"
proof -
  let ?s = "pageOf miniEngine miniStart Black"
  let ?t = "(pageOf_basic miniEngine miniStart White)\<lparr>aiThinking := True\<rparr>"
  have a: "turn miniEngine (game ?s) \<noteq> playerColor ?s"
    by (simp add: pageOf_def miniEngine_def miniStart_def)
  have b: "aiThinking ?t"
    by simp
  from a b turn_gating [of ?s miniEngine None "''e2''" ?t]
  show ?thesis by blast
qed

section \<open>The threat overlay gives the game back\<close>

lemma fold_fixed: "(\<And>x. x \<in> set xs \<Longrightarrow> f x g = g) \<Longrightarrow> fold f xs g = g"
  by (induction xs) simp_all

lemma threatSim_id:
  assumes "simRestores E g"
  shows "threatSim E c g = g"
  unfolding threatSim_def
proof (rule fold_fixed)
  fix sq assume sq: "sq \<in> set boardSquares"
  have inner: "fold (\<lambda>m g'. fst (undo E (fst (move E g' (moveObjOf m)))))
                 (moves E g (Some sq)) g = g"
    by (rule fold_fixed) (use assms sq in \<open>simp add: simRestores_def\<close>)
  show "(case get E g sq of None \<Rightarrow> g
         | Some piece \<Rightarrow>
             if pcolor piece = c
             then fold (\<lambda>m g'. fst (undo E (fst (move E g' (moveObjOf m)))))
                    (moves E g (Some sq)) g
             else g) = g"
    by (simp add: inner split: option.split)
qed

lemma updateThreatOverlay_id: "simRestores E (game s) \<Longrightarrow> updateThreatOverlay E s = s"
  by (simp add: updateThreatOverlay_def threatSim_id)

lemma renderBoard_restores: "simRestores E (game s) \<Longrightarrow> renderBoard E s = rebuildBoard E s"
  by (simp add: renderBoard_eq updateThreatOverlay_id)

lemma game_renderBoard: "simRestores E (game s) \<Longrightarrow> game (renderBoard E s) = game s"
  by (simp add: renderBoard_restores)

lemma game_updateThreatOverlay:
  "simRestores E (game s) \<Longrightarrow> game (updateThreatOverlay E s) = game s"
  by (simp add: updateThreatOverlay_id)

lemma game_rendered_twice:
  "simRestores E (game s) \<Longrightarrow> game (updateThreatOverlay E (renderBoard E s)) = game s"
  by (simp add: renderBoard_restores updateThreatOverlay_id)

subsection \<open>The small engine takes back what it played\<close>

lemma other_other: "other (other c) = c"
  by (cases c) (simp_all add: other_def)

lemma miniMove_undo:
  assumes "miniMove g obj = (g', Some m)"
  shows "miniUndo g' = (g, Some m)"
proof -
  from assms obtain p where
    g': "g' = \<lparr>mboard = (vto m, promoted p m) #
                   filter (\<lambda>e. fst e \<noteq> vfrom m \<and> fst e \<noteq> vto m) (mboard g),
               mturn = other (mturn g), mlog = mlog g @ [(mboard g, m)]\<rparr>"
    by (auto simp add: miniMove_def split: option.splits)
  show ?thesis
    by (simp add: g' miniUndo_def other_other)
qed

lemma miniStep_from: "m \<in> set (miniStep brd side sq f ro) \<Longrightarrow> vfrom m = sq"
  by (auto simp add: miniStep_def split: option.splits if_splits)

lemma miniMovesOf_from: "m \<in> set (miniMovesOf brd side e) \<Longrightarrow> vfrom m = fst e"
  unfolding miniMovesOf_def Let_def
  by (cases "ptype (snd e)") (auto split: if_splits option.splits dest: miniStep_from)


lemma miniMoves_on_board:
  assumes "m \<in> set (miniMoves g sqo)"
  shows "map_of (mboard g) (vfrom m) \<noteq> None"
proof -
  from assms obtain e where e: "e \<in> set (mboard g)" "m \<in> set (miniMovesOf (mboard g) (mturn g) e)"
    by (auto simp add: miniMoves_def Let_def split: option.splits)
  then have "vfrom m \<in> fst ` set (mboard g)"
    by (auto dest: miniMovesOf_from)
  then show ?thesis
    by (simp add: map_of_eq_None_iff)
qed

lemma miniMoves_all: "m \<in> set (miniMoves g sqo) \<Longrightarrow> m \<in> set (miniMoves g None)"
  by (auto simp add: miniMoves_def Let_def split: option.splits)

lemma miniMove_listed:
  assumes "m \<in> set (miniMoves g sqo)"
  shows "\<exists>g' m'. miniMove g (moveObjOf m) = (g', Some m')"
proof -
  let ?P = "\<lambda>x. vfrom x = mfrom (moveObjOf m) \<and> vto x = mto (moveObjOf m) \<and>
                 (vpromotion x = None \<or> mpromotion (moveObjOf m) = vpromotion x)"
  have "m \<in> set (miniMoves g None)" "?P m"
    using assms by (auto simp add: miniMoves_all moveObjOf_def)
  then obtain m' where f: "find ?P (miniMoves g None) = Some m'"
    by (cases "find ?P (miniMoves g None)") (auto simp add: find_None_iff)
  then have "m' \<in> set (miniMoves g None)"
    by (auto simp add: find_Some_iff)
  then obtain p where "map_of (mboard g) (vfrom m') = Some p"
    using miniMoves_on_board by fastforce
  with f show ?thesis
    by (simp add: miniMove_def)
qed

lemma mini_simRestores: "simRestores miniEngine g"
  unfolding simRestores_def
proof (intro ballI)
  fix sq m assume "sq \<in> set boardSquares" and "m \<in> set (moves miniEngine g (Some sq))"
  then have "m \<in> set (miniMoves g (Some sq))"
    by (simp add: miniEngine_def)
  then obtain g' m' where "miniMove g (moveObjOf m) = (g', Some m')"
    using miniMove_listed by blast
  then show "fst (undo miniEngine (fst (move miniEngine g (moveObjOf m)))) = g"
    by (simp add: miniEngine_def miniMove_undo)
qed

subsection \<open>Evaluating the examples\<close>

lemmas mini_defs = miniMoves_def miniStart_def miniMovesOf_def rankUp_def rankDown_def miniStep_def
  miniMove_def miniUndo_def miniDraw_def miniEngine_def promoted_def other_def Let_def

lemma pageOf_fields [simp]:
  "game (pageOf E g c) = g"
  "selectedSquare (pageOf E g c) = None"
  "possibleMoves (pageOf E g c) = []"
  "playerColor (pageOf E g c) = c"
  "aiColor (pageOf E g c) = (if c = White then Black else White)"
  "aiThinking (pageOf E g c) = False"
  "timers (pageOf E g c) = []"
  "fresh (pageOf E g c) = 0"
  "redoStack (pageOf E g c) = []"
  "showThreats (pageOf E g c) = False"
  "flipped (pageOf E g c) = False"
  "overlayOutside (pageOf E g c) = False"
  by (simp_all add: pageOf_def)

lemma pageOf_basic_fields [simp]:
  "game (pageOf_basic E g c) = g"
  "selectedSquare (pageOf_basic E g c) = None"
  "possibleMoves (pageOf_basic E g c) = []"
  "playerColor (pageOf_basic E g c) = c"
  "aiColor (pageOf_basic E g c) = (if c = White then Black else White)"
  "aiThinking (pageOf_basic E g c) = False"
  "timers (pageOf_basic E g c) = []"
  "fresh (pageOf_basic E g c) = 0"
  by (simp_all add: pageOf_basic_def renderBoard_basic_def)

lemma afterE3_move: "miniMove miniStart \<lparr>mfrom = ''e2'', mto = ''e3'', mpromotion = None\<rparr> = (afterE3, Some pawnE3)"
  by (simp add: mini_defs afterE3_def pawnE3_def)

lemma afterE3_undo: "miniUndo afterE3 = (miniStart, Some pawnE3)"
  using afterE3_move by (rule miniMove_undo)

section \<open>A new move clears the redo stack\<close>

text \<open>
  C2.  In app_ai.js the redo stack is empty after a human click that completes a move
  (the click on a destination of the selected square), and after the opponent's move is
  committed: by the callback itself, and so by the animation timer whenever its glyph is
  still on the board.
\<close>

theorem move_clears_redo:
  "(\<not> aiThinking s \<and> turn E (game s) = playerColor s \<and>
    selectedSquare s = Some sel \<and> sel \<noteq> [] \<and> sq \<in> set (possibleMoves s)
      \<longrightarrow> redoStack (onSquareClick E choice sq s) = []) \<and>
   redoStack (aiCommit E m t) = [] \<and>
   (AnimPiece k \<in> set (children t)
      \<longrightarrow> (\<exists>t'. animTimeout E m k t = Inr t' \<and> redoStack t' = []))"
  by (simp add: onSquareClick_def moveBranch_def Let_def aiCommit_def animTimeout_def
      triggerAiMove_def)

theorem move_clears_redo_witness:
  "\<not> aiThinking ((pageOf miniEngine miniStart White)
       \<lparr>selectedSquare := Some ''e2'', possibleMoves := [''e3''], redoStack := [pawnE3]\<rparr>) \<and>
   turn miniEngine (game ((pageOf miniEngine miniStart White)
       \<lparr>selectedSquare := Some ''e2'', possibleMoves := [''e3''], redoStack := [pawnE3]\<rparr>)) =
     playerColor ((pageOf miniEngine miniStart White)
       \<lparr>selectedSquare := Some ''e2'', possibleMoves := [''e3''], redoStack := [pawnE3]\<rparr>) \<and>
   redoStack (onSquareClick miniEngine None ''e3'' ((pageOf miniEngine miniStart White)
       \<lparr>selectedSquare := Some ''e2'', possibleMoves := [''e3''], redoStack := [pawnE3]\<rparr>)) = [] \<and>
   redoStack (aiCommit miniEngine pawnE6 ((pageOf miniEngine afterE3 White)
       \<lparr>redoStack := [pawnE3]\<rparr>)) = [] \<and>
   AnimPiece 0 \<in> set (children ((pageOf miniEngine afterE3 White)
       \<lparr>redoStack := [pawnE3], children := [AnimPiece 0]\<rparr>)) \<and>
   (\<exists>t'. animTimeout miniEngine pawnE6 0 ((pageOf miniEngine afterE3 White)
       \<lparr>redoStack := [pawnE3], children := [AnimPiece 0]\<rparr>) = Inr t' \<and> redoStack t' = [])"
proof -
  let ?s = "(pageOf miniEngine miniStart White)
       \<lparr>selectedSquare := Some ''e2'', possibleMoves := [''e3''], redoStack := [pawnE3]\<rparr>"
  let ?t = "(pageOf miniEngine afterE3 White)\<lparr>redoStack := [pawnE3], children := [AnimPiece 0]\<rparr>"
  let ?u = "(pageOf miniEngine afterE3 White)\<lparr>redoStack := [pawnE3]\<rparr>"
  have h: "\<not> aiThinking ?s" "turn miniEngine (game ?s) = playerColor ?s"
    "selectedSquare ?s = Some ''e2''" "''e2'' \<noteq> []" "''e3'' \<in> set (possibleMoves ?s)"
    by (simp_all add: miniEngine_def miniStart_def)
  have k: "AnimPiece 0 \<in> set (children ?t)" by simp
  note a = move_clears_redo [where s = ?s and E = miniEngine and sel = "''e2''" and sq = "''e3''"
      and choice = None and m = pawnE6 and t = ?t and k = 0]
  note b = move_clears_redo [where m = pawnE6 and t = ?u and E = miniEngine]
  from h k a b show ?thesis by blast
qed

section \<open>Selecting a piece\<close>

text \<open>
  C4.  When the human may act and clicks a square that holds a piece of the side to move
  and is not one of the current destinations, the square becomes the selection and the
  destinations become the \<open>to\<close> squares of the moves the engine lists for that square,
  all of them and no others.
\<close>

theorem selection_correct:
  assumes "\<not> aiThinking s" and "turn E (game s) = playerColor s"
    and "get E (game s) sq = Some p" and "pcolor p = turn E (game s)"
    and "sq \<notin> set (possibleMoves s)"
  shows "selectedSquare (onSquareClick E choice sq s) = Some sq \<and>
         possibleMoves (onSquareClick E choice sq s) = map vto (moves E (game s) (Some sq)) \<and>
         set (possibleMoves (onSquareClick E choice sq s)) = vto ` set (moves E (game s) (Some sq))"
  using assms
  by (simp add: onSquareClick_def moveBranch_def Let_def split: option.split)

theorem selection_correct_witness:
  "\<not> aiThinking (pageOf miniEngine miniStart White) \<and>
   turn miniEngine (game (pageOf miniEngine miniStart White)) =
     playerColor (pageOf miniEngine miniStart White) \<and>
   get miniEngine (game (pageOf miniEngine miniStart White)) ''e2'' =
     Some \<lparr>ptype = Pawn, pcolor = White\<rparr> \<and>
   pcolor \<lparr>ptype = Pawn, pcolor = White\<rparr> = turn miniEngine (game (pageOf miniEngine miniStart White)) \<and>
   ''e2'' \<notin> set (possibleMoves (pageOf miniEngine miniStart White)) \<and>
   selectedSquare (onSquareClick miniEngine None ''e2'' (pageOf miniEngine miniStart White)) = Some ''e2'' \<and>
   possibleMoves (onSquareClick miniEngine None ''e2'' (pageOf miniEngine miniStart White)) = [''e3''] \<and>
   map vto (moves miniEngine miniStart (Some ''e2'')) = [''e3'']"
proof -
  let ?s = "pageOf miniEngine miniStart White"
  have h1: "\<not> aiThinking ?s" by simp
  have h2: "turn miniEngine (game ?s) = playerColor ?s" by (simp add: miniEngine_def miniStart_def)
  have h3: "get miniEngine (game ?s) ''e2'' = Some \<lparr>ptype = Pawn, pcolor = White\<rparr>"
    by (simp add: miniEngine_def miniStart_def)
  have h4: "pcolor \<lparr>ptype = Pawn, pcolor = White\<rparr> = turn miniEngine (game ?s)"
    by (simp add: miniEngine_def miniStart_def)
  have h5: "''e2'' \<notin> set (possibleMoves ?s)" by simp
  have mv: "map vto (moves miniEngine miniStart (Some ''e2'')) = [''e3'']"
    by (simp add: mini_defs)
  from selection_correct [OF h1 h2 h3 h4 h5, of None] h1 h2 h3 h4 h5 mv
  show ?thesis by simp
qed

section \<open>Promotion\<close>

lemma promotionChoice_eq:
  "promotionChoice choice =
     (case choice of
        None \<Rightarrow> ''q''
      | Some c \<Rightarrow> if toLowerCase c \<in> {''q'', ''r'', ''b'', ''n''} then toLowerCase c else ''q'')"
  by (auto simp add: promotionChoice_def toLowerCase_def split: option.split)

text \<open>
  C6.  When the human completes a move of a pawn to its last rank (rank 8 for White, rank
  1 for Black), the move handed to the engine carries the promotion the user chose: the
  lower-cased answer when that is one of q, r, b, n, and q when the prompt was cancelled,
  left empty or answered otherwise.  The answer n gives the promotion n, the knight.  The
  game after the click is the engine's game after that move, the engine giving the game
  back when the threat overlay is refreshed.
\<close>

theorem promotion_handling:
  assumes "\<not> aiThinking s" and "turn E (game s) = playerColor s"
    and "selectedSquare s = Some sel" and "sel \<noteq> []" and "sq \<in> set (possibleMoves s)"
    and "get E (game s) sel = Some mp" and "ptype mp = Pawn"
    and "(pcolor mp = White \<and> targetRank sq = Some (CHR ''8'')) \<or>
         (pcolor mp = Black \<and> targetRank sq = Some (CHR ''1''))"
    and "obj = \<lparr>mfrom = sel, mto = sq,
                 mpromotion = Some (case choice of
                                      None \<Rightarrow> ''q''
                                    | Some c \<Rightarrow>
                                        if toLowerCase c \<in> {''q'', ''r'', ''b'', ''n''}
                                        then toLowerCase c else ''q'')\<rparr>"
    and "simRestores E (fst (move E (game s) obj))"
  shows "game (onSquareClick E choice sq s) = fst (move E (game s) obj) \<and>
         promotionChoice (Some ''n'') = ''n'' \<and> promotionChoice None = ''q'' \<and>
         promotionChoice (Some []) = ''q''"
proof -
  have br: "moveBranch (selectedSquare s) (possibleMoves s) sq = Some sel"
    using assms(3-5) by (simp add: moveBranch_def)
  have pr: "promotionFor E (game s) sel sq choice = mpromotion obj"
    using assms(6-9) by (auto simp add: promotionFor_def promotionChoice_eq)
  have obj: "\<lparr>mfrom = sel, mto = sq, mpromotion = mpromotion obj\<rparr> = obj"
    using assms(9) by simp
  have "game (onSquareClick E choice sq s) = fst (move E (game s) obj)"
    using assms(1,2,10) by (simp add: onSquareClick_def br pr obj Let_def game_rendered_twice)
  moreover have "promotionChoice (Some ''n'') = ''n''" "promotionChoice None = ''q''"
    "promotionChoice (Some []) = ''q''"
    by (simp_all add: promotionChoice_def toLowerCase_def)
  ultimately show ?thesis by simp
qed

theorem promotion_handling_witness:
  "\<not> aiThinking ((pageOf miniEngine promoGame White)
       \<lparr>selectedSquare := Some ''e7'', possibleMoves := [''e8'']\<rparr>) \<and>
   turn miniEngine promoGame = White \<and>
   ''e7'' \<noteq> [] \<and>
   get miniEngine promoGame ''e7'' = Some \<lparr>ptype = Pawn, pcolor = White\<rparr> \<and>
   targetRank ''e8'' = Some (CHR ''8'') \<and>
   simRestores miniEngine
     (fst (move miniEngine promoGame \<lparr>mfrom = ''e7'', mto = ''e8'', mpromotion = Some ''n''\<rparr>)) \<and>
   game (onSquareClick miniEngine (Some ''N'') ''e8''
           ((pageOf miniEngine promoGame White)
              \<lparr>selectedSquare := Some ''e7'', possibleMoves := [''e8'']\<rparr>)) =
     fst (move miniEngine promoGame \<lparr>mfrom = ''e7'', mto = ''e8'', mpromotion = Some ''n''\<rparr>) \<and>
   get miniEngine
     (fst (move miniEngine promoGame \<lparr>mfrom = ''e7'', mto = ''e8'', mpromotion = Some ''n''\<rparr>))
     ''e8'' = Some \<lparr>ptype = Knight, pcolor = White\<rparr>"
proof -
  let ?s = "(pageOf miniEngine promoGame White)
       \<lparr>selectedSquare := Some ''e7'', possibleMoves := [''e8'']\<rparr>"
  let ?obj = "\<lparr>mfrom = ''e7'', mto = ''e8'', mpromotion = Some ''n''\<rparr>"
  have h1: "\<not> aiThinking ?s" by simp
  have t: "turn miniEngine promoGame = White" by (simp add: miniEngine_def promoGame_def)
  have h2: "turn miniEngine (game ?s) = playerColor ?s" by (simp add: t)
  have h3: "selectedSquare ?s = Some ''e7''" by simp
  have h4: "''e7'' \<noteq> []" by simp
  have h5: "''e8'' \<in> set (possibleMoves ?s)" by simp
  have g: "get miniEngine promoGame ''e7'' = Some \<lparr>ptype = Pawn, pcolor = White\<rparr>"
    by (simp add: miniEngine_def promoGame_def)
  have h6: "get miniEngine (game ?s) ''e7'' = Some \<lparr>ptype = Pawn, pcolor = White\<rparr>"
    by (simp add: g)
  have h7: "ptype \<lparr>ptype = Pawn, pcolor = White\<rparr> = Pawn" by simp
  have r: "targetRank ''e8'' = Some (CHR ''8'')" by (simp add: targetRank_def)
  have h8: "(pcolor \<lparr>ptype = Pawn, pcolor = White\<rparr> = White \<and> targetRank ''e8'' = Some (CHR ''8'')) \<or>
            (pcolor \<lparr>ptype = Pawn, pcolor = White\<rparr> = Black \<and> targetRank ''e8'' = Some (CHR ''1''))"
    by (simp add: r)
  have h9: "?obj = \<lparr>mfrom = ''e7'', mto = ''e8'',
                 mpromotion = Some (case Some ''N'' of
                                      None \<Rightarrow> ''q''
                                    | Some c \<Rightarrow>
                                        if toLowerCase c \<in> {''q'', ''r'', ''b'', ''n''}
                                        then toLowerCase c else ''q'')\<rparr>"
    by (simp add: toLowerCase_def)
  have h10: "simRestores miniEngine (fst (move miniEngine (game ?s) ?obj))"
    by (rule mini_simRestores)
  have k: "get miniEngine (fst (move miniEngine promoGame ?obj)) ''e8'' =
             Some \<lparr>ptype = Knight, pcolor = White\<rparr>"
    by (simp add: mini_defs promoGame_def)
  from promotion_handling [OF h1 h2 h3 h4 h5 h6 h7 h8 h9 h10] h1 t h4 g r k
    mini_simRestores [of "fst (move miniEngine promoGame ?obj)"]
  show ?thesis by simp
qed

section \<open>Undo\<close>

text \<open>
  C9.  \<open>undoLastMove\<close> changes nothing while the opponent is busy, and nothing when the
  engine has no move to take back (chess.js then returns null and leaves the game, which
  is the case of an empty history).  Otherwise the game is the engine's game after one
  undo, the undone move is pushed on the redo stack, the selection is cleared and the
  busy flag is false; the history, which the engine shortens by the undone move, is one
  move shorter.
\<close>

theorem undo_semantics:
  "(aiThinking s \<longrightarrow> undoLastMove E s = s) \<and>
   (undo E (game s) = (game s, None) \<longrightarrow> undoLastMove E s = s) \<and>
   (\<not> aiThinking s \<and> undo E (game s) = (g', Some m) \<and> simRestores E g' \<and>
    history E (game s) = history E g' @ [vsan m]
      \<longrightarrow> game (undoLastMove E s) = g' \<and>
          redoStack (undoLastMove E s) = redoStack s @ [m] \<and>
          selectedSquare (undoLastMove E s) = None \<and>
          possibleMoves (undoLastMove E s) = [] \<and>
          \<not> aiThinking (undoLastMove E s) \<and>
          length (history E (game s)) = Suc (length (history E (game (undoLastMove E s)))))"
  by (simp add: undoLastMove_def game_rendered_twice)

theorem undo_semantics_witness:
  "aiThinking ((pageOf miniEngine afterE3 White)\<lparr>aiThinking := True\<rparr>) \<and>
   undoLastMove miniEngine ((pageOf miniEngine afterE3 White)\<lparr>aiThinking := True\<rparr>) =
     (pageOf miniEngine afterE3 White)\<lparr>aiThinking := True\<rparr> \<and>
   undo miniEngine (game (pageOf miniEngine miniStart White)) =
     (game (pageOf miniEngine miniStart White), None) \<and>
   undoLastMove miniEngine (pageOf miniEngine miniStart White) = pageOf miniEngine miniStart White \<and>
   \<not> aiThinking (pageOf miniEngine afterE3 White) \<and>
   undo miniEngine (game (pageOf miniEngine afterE3 White)) = (miniStart, Some pawnE3) \<and>
   simRestores miniEngine miniStart \<and>
   history miniEngine (game (pageOf miniEngine afterE3 White)) =
     history miniEngine miniStart @ [vsan pawnE3] \<and>
   game (undoLastMove miniEngine (pageOf miniEngine afterE3 White)) = miniStart \<and>
   redoStack (undoLastMove miniEngine (pageOf miniEngine afterE3 White)) = [pawnE3] \<and>
   selectedSquare (undoLastMove miniEngine (pageOf miniEngine afterE3 White)) = None \<and>
   possibleMoves (undoLastMove miniEngine (pageOf miniEngine afterE3 White)) = [] \<and>
   \<not> aiThinking (undoLastMove miniEngine (pageOf miniEngine afterE3 White)) \<and>
   history miniEngine (game (pageOf miniEngine afterE3 White)) = [''e2e3''] \<and>
   history miniEngine (game (undoLastMove miniEngine (pageOf miniEngine afterE3 White))) = []"
proof -
  let ?b = "(pageOf miniEngine afterE3 White)\<lparr>aiThinking := True\<rparr>"
  let ?e = "pageOf miniEngine miniStart White"
  let ?s = "pageOf miniEngine afterE3 White"
  have b: "aiThinking ?b" by simp
  have e: "undo miniEngine (game ?e) = (game ?e, None)"
    by (simp add: miniEngine_def miniUndo_def miniStart_def)
  have s1: "\<not> aiThinking ?s" by simp
  have s2: "undo miniEngine (game ?s) = (miniStart, Some pawnE3)"
    by (simp add: miniEngine_def afterE3_undo)
  have s3: "history miniEngine (game ?s) = history miniEngine miniStart @ [vsan pawnE3]"
    by (simp add: miniEngine_def afterE3_def miniStart_def)
  have s4: "history miniEngine (game ?s) = [''e2e3'']"
    by (simp add: miniEngine_def afterE3_def pawnE3_def)
  have s5: "history miniEngine miniStart = []"
    by (simp add: miniEngine_def miniStart_def)
  note u1 = undo_semantics [where s = ?b and E = miniEngine]
  note u2 = undo_semantics [where s = ?e and E = miniEngine]
  note u3 = undo_semantics [where s = ?s and E = miniEngine and g' = miniStart and m = pawnE3]
  from b e s1 s2 s3 s4 s5 u1 u2 u3 mini_simRestores [of miniStart]
  show ?thesis by simp
qed

section \<open>Undo and redo\<close>

text \<open>
  C3.  With the opponent not busy and a move to take back, \<open>redoMove\<close> right after
  \<open>undoLastMove\<close> hands the engine the from, to and promotion of the move just undone
  (an empty promotion is left out).  When the engine, replaying these on the game it
  returned from undo, gives the earlier game, the game after the two calls is the game
  before them; so the history has the same length, and the redo stack is as it was.
\<close>

theorem undo_redo_roundtrip:
  assumes "\<not> aiThinking s"
    and "undo E (game s) = (g', Some m)"
    and "fst (move E g' \<lparr>mfrom = vfrom m, mto = vto m,
                        mpromotion = (if vpromotion m = Some [] then None else vpromotion m)\<rparr>) = game s"
    and "simRestores E g'" and "simRestores E (game s)"
  shows "game (redoMove E (undoLastMove E s)) = game s \<and>
         length (history E (game (redoMove E (undoLastMove E s)))) = length (history E (game s)) \<and>
         redoStack (redoMove E (undoLastMove E s)) = redoStack s"
proof -
  let ?u = "undoLastMove E s"
  have obj: "redoObj m = \<lparr>mfrom = vfrom m, mto = vto m,
                        mpromotion = (if vpromotion m = Some [] then None else vpromotion m)\<rparr>"
    by (simp add: redoObj_def split: option.split)
  have u: "game ?u = g'" "redoStack ?u = redoStack s @ [m]" "\<not> aiThinking ?u"
    using assms(1,2,4) by (simp_all add: undoLastMove_def game_rendered_twice)
  have "game (redoMove E ?u) = game s"
    using u assms(3,5) by (simp add: redoMove_def Let_def obj game_rendered_twice)
  moreover have "redoStack (redoMove E ?u) = redoStack s"
    using u by (simp add: redoMove_def Let_def)
  ultimately show ?thesis by simp
qed

theorem undo_redo_roundtrip_witness:
  "\<not> aiThinking (pageOf miniEngine afterE3 White) \<and>
   undo miniEngine (game (pageOf miniEngine afterE3 White)) = (miniStart, Some pawnE3) \<and>
   fst (move miniEngine miniStart \<lparr>mfrom = ''e2'', mto = ''e3'', mpromotion = None\<rparr>) = afterE3 \<and>
   simRestores miniEngine miniStart \<and> simRestores miniEngine afterE3 \<and>
   game (undoLastMove miniEngine (pageOf miniEngine afterE3 White)) = miniStart \<and>
   game (redoMove miniEngine (undoLastMove miniEngine (pageOf miniEngine afterE3 White))) = afterE3 \<and>
   length (history miniEngine
     (game (redoMove miniEngine (undoLastMove miniEngine (pageOf miniEngine afterE3 White))))) =
     length (history miniEngine afterE3) \<and>
   redoStack (redoMove miniEngine (undoLastMove miniEngine (pageOf miniEngine afterE3 White))) = []"
proof -
  let ?s = "pageOf miniEngine afterE3 White"
  have h1: "\<not> aiThinking ?s" by simp
  have h2: "undo miniEngine (game ?s) = (miniStart, Some pawnE3)"
    by (simp add: miniEngine_def afterE3_undo)
  have mv: "fst (move miniEngine miniStart \<lparr>mfrom = ''e2'', mto = ''e3'', mpromotion = None\<rparr>) = afterE3"
    by (simp add: miniEngine_def afterE3_move)
  have h3: "fst (move miniEngine miniStart
                  \<lparr>mfrom = vfrom pawnE3, mto = vto pawnE3,
                   mpromotion = (if vpromotion pawnE3 = Some [] then None else vpromotion pawnE3)\<rparr>) =
            game ?s"
    using mv by (simp add: pawnE3_def)
  have h4: "simRestores miniEngine miniStart" by (rule mini_simRestores)
  have h5: "simRestores miniEngine (game ?s)" by (rule mini_simRestores)
  have u: "game (undoLastMove miniEngine ?s) = miniStart"
    using h2 h4 by (simp add: undoLastMove_def game_rendered_twice)
  from undo_redo_roundtrip [OF h1 h2 h3 h4 h5] h1 h2 mv h4 u mini_simRestores [of afterE3]
  show ?thesis by simp
qed

section \<open>A drawn game still takes the human's moves\<close>

lemma game_click_move:
  assumes "\<not> aiThinking s" and "turn E (game s) = playerColor s"
    and "selectedSquare s = Some sel" and "sel \<noteq> []" and "sq \<in> set (possibleMoves s)"
    and "simRestores E (fst (move E (game s)
            \<lparr>mfrom = sel, mto = sq, mpromotion = promotionFor E (game s) sel sq choice\<rparr>))"
  shows "game (onSquareClick E choice sq s) =
           fst (move E (game s)
                  \<lparr>mfrom = sel, mto = sq, mpromotion = promotionFor E (game s) sel sq choice\<rparr>)"
  using assms
  by (simp add: onSquareClick_def moveBranch_def Let_def game_rendered_twice)

text \<open>
  C5.  \<open>onSquareClick\<close> never asks the engine whether the game is over.  In a position
  the engine reports as drawn in which the side to move still has moves (kings only, here),
  the human selects a piece and plays it, and the history grows by that move.
\<close>

theorem draw_click_appends:
  "in_draw miniEngine (game (pageOf miniEngine kingsOnly White)) \<and>
   game_over miniEngine (game (pageOf miniEngine kingsOnly White)) \<and>
   history miniEngine (game (pageOf miniEngine kingsOnly White)) = [] \<and>
   selectedSquare (onSquareClick miniEngine None ''e1'' (pageOf miniEngine kingsOnly White)) =
     Some ''e1'' \<and>
   possibleMoves (onSquareClick miniEngine None ''e1'' (pageOf miniEngine kingsOnly White)) =
     [''e2''] \<and>
   history miniEngine
     (game (onSquareClick miniEngine None ''e2''
              (onSquareClick miniEngine None ''e1'' (pageOf miniEngine kingsOnly White)))) =
     [''e1e2'']"
proof -
  let ?s = "pageOf miniEngine kingsOnly White"
  let ?s1 = "onSquareClick miniEngine None ''e1'' ?s"
  have d: "in_draw miniEngine (game ?s)" "game_over miniEngine (game ?s)"
    by (simp_all add: miniEngine_def miniDraw_def kingsOnly_def)
  have h: "history miniEngine (game ?s) = []"
    by (simp add: miniEngine_def kingsOnly_def)
  have t: "turn miniEngine kingsOnly = White"
    by (simp add: miniEngine_def kingsOnly_def)
  have g: "get miniEngine kingsOnly ''e1'' = Some \<lparr>ptype = King, pcolor = White\<rparr>"
    by (simp add: miniEngine_def kingsOnly_def)
  have mv: "map vto (moves miniEngine kingsOnly (Some ''e1'')) = [''e2'']"
    by (simp add: mini_defs kingsOnly_def)
  have s1: "selectedSquare ?s1 = Some ''e1''" "possibleMoves ?s1 = [''e2'']"
    "\<not> aiThinking ?s1" "playerColor ?s1 = White"
    by (simp_all add: onSquareClick_def moveBranch_def t g mv)
  have g1: "game ?s1 = kingsOnly"
    by (simp add: onSquareClick_def moveBranch_def t g game_renderBoard mini_simRestores)
  have pf: "promotionFor miniEngine kingsOnly ''e1'' ''e2'' None = None"
    by (simp add: promotionFor_def g)
  have "game (onSquareClick miniEngine None ''e2'' ?s1) =
          fst (move miniEngine (game ?s1)
                 \<lparr>mfrom = ''e1'', mto = ''e2'',
                  mpromotion = promotionFor miniEngine (game ?s1) ''e1'' ''e2'' None\<rparr>)"
    by (rule game_click_move) (simp_all add: s1 g1 t mini_simRestores)
  then have "history miniEngine (game (onSquareClick miniEngine None ''e2'' ?s1)) = [''e1e2'']"
    by (simp add: g1 pf) (simp add: mini_defs kingsOnly_def)
  with d h s1 show ?thesis by simp
qed

section \<open>The selection is set by clicks, and by the opponent in part_000\<close>

lemma sel_aiCommit: "selectionOf (aiCommit E m s) = (None, [])"
  by (simp add: selectionOf_def aiCommit_def)

lemma sel_animateAIMove:
  "selectionOf (animateAIMove E m s) = selectionOf s \<or> selectionOf (animateAIMove E m s) = (None, [])"
  using sel_aiCommit [of E m s]
  by (auto simp add: animateAIMove_def Let_def selectionOf_def split: option.split)

lemma sel_thinkTimeout:
  "selectionOf (afterCallback (thinkTimeout E r s)) = selectionOf s \<or>
   selectionOf (afterCallback (thinkTimeout E r s)) = (None, [])"
proof -
  let ?s1 = "s\<lparr>selectedSquare := None, possibleMoves := []\<rparr>"
  have c: "selectionOf ?s1 = (None, [])" by (simp add: selectionOf_def)
  have "\<And>m. selectionOf (animateAIMove E m ?s1) = (None, [])"
    using sel_animateAIMove [of E _ ?s1] c by auto
  then show ?thesis
    by (simp add: thinkTimeout_def Let_def afterCallback_def c) (simp add: selectionOf_def)
qed

lemma sel_animTimeout:
  "selectionOf (afterCallback (animTimeout E m k s)) = selectionOf s \<or>
   selectionOf (afterCallback (animTimeout E m k s)) = (None, [])"
  by (simp add: animTimeout_def afterCallback_def sel_aiCommit)

lemma sel_undo:
  "selectionOf (undoLastMove E s) = selectionOf s \<or> selectionOf (undoLastMove E s) = (None, [])"
  by (simp add: undoLastMove_def selectionOf_def split: prod.split option.split)

lemma sel_redo:
  "selectionOf (redoMove E s) = selectionOf s \<or> selectionOf (redoMove E s) = (None, [])"
  by (simp add: redoMove_def selectionOf_def Let_def)

lemma sel_reset: "selectionOf (resetGame E r s) = (None, [])"
  by (simp add: resetGame_def selectionOf_def Let_def)

lemma sel_flip: "selectionOf (flipBoard E s) = selectionOf s"
  by (simp add: flipBoard_def selectionOf_def)

lemma sel_threats: "selectionOf (toggleThreats E s) = selectionOf s"
  by (simp add: toggleThreats_def selectionOf_def)

lemma sel_click:
  "selectionOf (onSquareClick E choice sq s) = selectionOf s \<or>
   selectionOf (onSquareClick E choice sq s) = (None, []) \<or>
   (\<exists>p. \<not> aiThinking s \<and> turn E (game s) = playerColor s \<and>
        get E (game s) sq = Some p \<and> pcolor p = turn E (game s) \<and>
        selectionOf (onSquareClick E choice sq s) = (Some sq, map vto (moves E (game s) (Some sq))))"
  by (simp add: onSquareClick_def selectionOf_def Let_def split: option.split)

lemma sel_timeout:
  "selectionOf (step E (Timeout i r) s) = selectionOf s \<or>
   selectionOf (step E (Timeout i r) s) = (None, [])"
proof (cases "i < length (timers s)")
  case False
  then show ?thesis by simp
next
  case True
  let ?s' = "s\<lparr>timers := dropTimer i (timers s)\<rparr>"
  have k: "selectionOf ?s' = selectionOf s" by (simp add: selectionOf_def)
  show ?thesis
  proof (cases "timers s ! i")
    case Think
    with True sel_thinkTimeout [of E r ?s'] k show ?thesis by (simp add: Let_def)
  next
    case (Anim m k')
    with True sel_animTimeout [of E m k' ?s'] k show ?thesis by (simp add: Let_def)
  qed
qed

lemma renderBoard_basic_ai_fields [simp]:
  "playerColor (renderBoard_basic E s) = playerColor s"
  "aiColor (renderBoard_basic E s) = aiColor s"
  "aiThinking (renderBoard_basic E s) = aiThinking s"
  "timers (renderBoard_basic E s) = timers s"
  "fresh (renderBoard_basic E s) = fresh s"
  by (simp_all add: renderBoard_basic_def)

lemma sel_aiCommit_basic: "selectionOf (aiCommit_basic E m s) = (None, [])"
  by (simp add: selectionOf_def aiCommit_basic_def)

lemma sel_animateAIMove_basic:
  "selectionOf (animateAIMove_basic E m s) = selectionOf s \<or>
   selectionOf (animateAIMove_basic E m s) = (None, [])"
  using sel_aiCommit_basic [of E m s]
  by (auto simp add: animateAIMove_basic_def Let_def selectionOf_def split: option.split)

lemma sel_thinkTimeout_basic:
  "selectionOf (afterCallback (thinkTimeout_basic E r s)) = selectionOf s \<or>
   selectionOf (afterCallback (thinkTimeout_basic E r s)) = (None, []) \<or>
   (\<exists>m \<in> set (moves E (game s) None).
      selectionOf (afterCallback (thinkTimeout_basic E r s)) = (Some (vfrom m), [vto m]))"
proof (cases "moves E (game s) None = [] \<or>
              \<not> (0 \<le> r \<and>
                 r < int (length (moves E (game s) None)))")
  case True
  then show ?thesis
    by (auto simp add: thinkTimeout_basic_def Let_def afterCallback_def selectionOf_def)
next
  case False
  let ?ms = "moves E (game s) None"
  let ?m = "?ms ! nat r"
  let ?s1 = "renderBoard_basic E (s\<lparr>selectedSquare := Some (vfrom ?m), possibleMoves := [vto ?m]\<rparr>)"
  have "nat r < length ?ms" using False by linarith
  then have m: "?m \<in> set ?ms" by (rule nth_mem)
  have e: "afterCallback (thinkTimeout_basic E r s) = animateAIMove_basic E ?m ?s1"
    using False by (simp add: thinkTimeout_basic_def Let_def afterCallback_def)
  have c: "selectionOf ?s1 = (Some (vfrom ?m), [vto ?m])" by (simp add: selectionOf_def)
  from sel_animateAIMove_basic [of E ?m ?s1] c e m show ?thesis by auto
qed

lemma sel_animTimeout_basic:
  "selectionOf (afterCallback (animTimeout_basic E m k s)) = selectionOf s \<or>
   selectionOf (afterCallback (animTimeout_basic E m k s)) = (None, [])"
  by (simp add: animTimeout_basic_def afterCallback_def sel_aiCommit_basic)

lemma sel_click_basic:
  "selectionOf (onSquareClick_basic E sq s) = selectionOf s \<or>
   selectionOf (onSquareClick_basic E sq s) = (None, []) \<or>
   (\<exists>p. \<not> aiThinking s \<and> turn E (game s) = playerColor s \<and>
        get E (game s) sq = Some p \<and> pcolor p = turn E (game s) \<and>
        selectionOf (onSquareClick_basic E sq s) = (Some sq, map vto (moves E (game s) (Some sq))))"
  by (simp add: onSquareClick_basic_def selectionOf_def Let_def split: option.split)

lemma sel_click_plain:
  "selectionOf (onSquareClick_plain E sq s) = selectionOf s \<or>
   selectionOf (onSquareClick_plain E sq s) = (None, []) \<or>
   (\<exists>p. get E (game s) sq = Some p \<and> pcolor p = turn E (game s) \<and>
        selectionOf (onSquareClick_plain E sq s) = (Some sq, map vto (moves E (game s) (Some sq))))"
  by (simp add: onSquareClick_plain_def selectionOf_def Let_def split: option.split)

lemma sel_timeout_basic:
  "selectionOf (step_basic E (Timeout i r) s) = selectionOf s \<or>
   selectionOf (step_basic E (Timeout i r) s) = (None, []) \<or>
   (i < length (timers s) \<and> timers s ! i = Think \<and>
    (\<exists>m \<in> set (moves E (game s) None).
       selectionOf (step_basic E (Timeout i r) s) = (Some (vfrom m), [vto m])))"
proof (cases "i < length (timers s)")
  case False
  then show ?thesis by simp
next
  case True
  let ?s' = "s\<lparr>timers := dropTimer i (timers s)\<rparr>"
  have k: "selectionOf ?s' = selectionOf s" "game ?s' = game s" by (simp_all add: selectionOf_def)
  show ?thesis
  proof (cases "timers s ! i")
    case Think
    with True sel_thinkTimeout_basic [of E r ?s'] k show ?thesis by (simp add: Let_def)
  next
    case (Anim m k')
    with True sel_animTimeout_basic [of E m k' ?s'] k show ?thesis by (simp add: Let_def)
  qed
qed

lemma e7_e6_on_board: "''e7'' \<in> set boardSquares" "''e6'' \<in> set boardSquares"
  by (simp_all add: boardSquares_def upt8 squareName_def)

lemma afterE3_moves: "moves miniEngine afterE3 None = [pawnE6]"
  by (simp add: mini_defs afterE3_def pawnE6_def)

lemma afterE3_facts:
  "turn miniEngine afterE3 = Black" "\<not> game_over miniEngine afterE3"
  "get miniEngine afterE3 ''e7'' = Some \<lparr>ptype = Pawn, pcolor = Black\<rparr>"
  by (simp_all add: mini_defs afterE3_def)

lemma thinkingPage_basic_eq:
  "thinkingPage_basic =
     (pageOf_basic miniEngine afterE3 White)\<lparr>aiThinking := True, timers := [Think]\<rparr>"
  by (simp add: thinkingPage_basic_def triggerAiMove_def afterE3_facts)

lemma find_after_render_basic:
  "sq \<in> set boardSquares \<Longrightarrow>
     find (\<lambda>el. dataSquare el = Some sq) (children (renderBoard_basic E s)) =
       Some (SquareEl sq (get E (game s) sq \<noteq> None))"
  by (simp add: renderBoard_basic_def find_square_rendered)

lemma thinkStep_basic:
  "step_basic miniEngine (Timeout 0 0) thinkingPage_basic =
     (renderBoard_basic miniEngine
        ((pageOf_basic miniEngine afterE3 White)
           \<lparr>aiThinking := True, timers := [], selectedSquare := Some ''e7'',
            possibleMoves := [''e6'']\<rparr>))
       \<lparr>children :=
          clearSquare ''e7''
            (children (renderBoard_basic miniEngine
               ((pageOf_basic miniEngine afterE3 White)
                  \<lparr>aiThinking := True, timers := [], selectedSquare := Some ''e7'',
                   possibleMoves := [''e6'']\<rparr>)) @ [AnimPiece 0]),
        timers := [Anim pawnE6 0], fresh := Suc 0\<rparr>"
proof -
  let ?s' = "(pageOf_basic miniEngine afterE3 White)\<lparr>aiThinking := True, timers := []\<rparr>"
  let ?s1 = "renderBoard_basic miniEngine
               (?s'\<lparr>selectedSquare := Some ''e7'', possibleMoves := [''e6'']\<rparr>)"
  have th: "thinkTimeout_basic miniEngine 0 ?s' = Inr (animateAIMove_basic miniEngine pawnE6 ?s1)"
    by (simp add: thinkTimeout_basic_def afterE3_moves pawnE6_def)
  have an: "animateAIMove_basic miniEngine pawnE6 ?s1 =
              ?s1\<lparr>children := clearSquare ''e7'' (children ?s1 @ [AnimPiece 0]),
                   timers := [Anim pawnE6 0], fresh := Suc 0\<rparr>"
    by (simp add: animateAIMove_basic_def afterE3_facts find_after_render_basic e7_e6_on_board
        pawnE6_def [THEN arg_cong, of vfrom] pawnE6_def [THEN arg_cong, of vto])
  show ?thesis
    by (simp add: thinkingPage_basic_eq dropTimer_def th an afterCallback_def del: One_nat_def)
qed

text \<open>
  C7, as stated, fails in part_000: there the callback of the thinking delay stores the
  opponent's move in the selection.  With Black, the opponent, to move and nothing
  selected, the timer leaves e7 selected with e6 as its destination, and no click was
  made.
\<close>

theorem opponent_move_shown_as_selection:
  "selectedSquare thinkingPage_basic = None \<and>
   possibleMoves thinkingPage_basic = [] \<and>
   aiThinking thinkingPage_basic \<and>
   timers thinkingPage_basic = [Think] \<and>
   selectedSquare (step_basic miniEngine (Timeout 0 0) thinkingPage_basic) = Some ''e7'' \<and>
   possibleMoves (step_basic miniEngine (Timeout 0 0) thinkingPage_basic) = [''e6''] \<and>
   game (step_basic miniEngine (Timeout 0 0) thinkingPage_basic) = afterE3 \<and>
   playerColor (step_basic miniEngine (Timeout 0 0) thinkingPage_basic) = White \<and>
   get miniEngine afterE3 ''e7'' = Some \<lparr>ptype = Pawn, pcolor = Black\<rparr>"
  unfolding thinkStep_basic by (simp add: afterE3_facts thinkingPage_basic_eq)

text \<open>
  C7, amended.  In app_ai.js every event leaves the selection as it was or clears it,
  except a click, while the human may act, on a square holding a piece of the side to
  move: that sets the selection to the square and the engine's destinations for it.  The
  same holds for the clicks of the plain script, which has no opponent.  In part_000 there
  is one more case: the callback of the thinking delay sets the selection to the from
  square of one of the engine's moves, with its to square as the only destination.
\<close>

theorem selection_set_only_by_click:
  "(selectionOf (step E ev s) = selectionOf s \<or>
    selectionOf (step E ev s) = (None, []) \<or>
    (\<exists>sq choice p. ev = Click sq choice \<and> \<not> aiThinking s \<and> turn E (game s) = playerColor s \<and>
        get E (game s) sq = Some p \<and> pcolor p = turn E (game s) \<and>
        selectionOf (step E ev s) = (Some sq, map vto (moves E (game s) (Some sq))))) \<and>
   (selectionOf (step_basic E ev t) = selectionOf t \<or>
    selectionOf (step_basic E ev t) = (None, []) \<or>
    (\<exists>sq choice p. ev = Click sq choice \<and> \<not> aiThinking t \<and> turn E (game t) = playerColor t \<and>
        get E (game t) sq = Some p \<and> pcolor p = turn E (game t) \<and>
        selectionOf (step_basic E ev t) = (Some sq, map vto (moves E (game t) (Some sq)))) \<or>
    (\<exists>i r. ev = Timeout i r \<and> i < length (timers t) \<and> timers t ! i = Think \<and>
        (\<exists>m \<in> set (moves E (game t) None).
           selectionOf (step_basic E ev t) = (Some (vfrom m), [vto m])))) \<and>
   (selectionOf (onSquareClick_plain E sq' u) = selectionOf u \<or>
    selectionOf (onSquareClick_plain E sq' u) = (None, []) \<or>
    (\<exists>p. get E (game u) sq' = Some p \<and> pcolor p = turn E (game u) \<and>
        selectionOf (onSquareClick_plain E sq' u) =
          (Some sq', map vto (moves E (game u) (Some sq')))))"
proof (intro conjI)
  show "selectionOf (step E ev s) = selectionOf s \<or>
    selectionOf (step E ev s) = (None, []) \<or>
    (\<exists>sq choice p. ev = Click sq choice \<and> \<not> aiThinking s \<and> turn E (game s) = playerColor s \<and>
        get E (game s) sq = Some p \<and> pcolor p = turn E (game s) \<and>
        selectionOf (step E ev s) = (Some sq, map vto (moves E (game s) (Some sq))))"
  proof (cases ev)
    case (Click sq choice)
    with sel_click [of E choice sq s] show ?thesis by auto
  next
    case UndoBtn
    with sel_undo [of E s] show ?thesis by auto
  next
    case RedoBtn
    with sel_redo [of E s] show ?thesis by auto
  next
    case (ResetBtn r)
    with sel_reset [of E r s] show ?thesis by auto
  next
    case FlipBtn
    with sel_flip [of E s] show ?thesis by auto
  next
    case ThreatBtn
    with sel_threats [of E s] show ?thesis by auto
  next
    case (Timeout i r)
    with sel_timeout [of E i r s] show ?thesis by auto
  qed
  show "selectionOf (step_basic E ev t) = selectionOf t \<or>
    selectionOf (step_basic E ev t) = (None, []) \<or>
    (\<exists>sq choice p. ev = Click sq choice \<and> \<not> aiThinking t \<and> turn E (game t) = playerColor t \<and>
        get E (game t) sq = Some p \<and> pcolor p = turn E (game t) \<and>
        selectionOf (step_basic E ev t) = (Some sq, map vto (moves E (game t) (Some sq)))) \<or>
    (\<exists>i r. ev = Timeout i r \<and> i < length (timers t) \<and> timers t ! i = Think \<and>
        (\<exists>m \<in> set (moves E (game t) None).
           selectionOf (step_basic E ev t) = (Some (vfrom m), [vto m])))"
  proof (cases ev)
    case (Click sq choice)
    with sel_click_basic [of E sq t] show ?thesis by auto
  next
    case (Timeout i r)
    with sel_timeout_basic [of E i r t] show ?thesis by auto
  qed simp_all
  show "selectionOf (onSquareClick_plain E sq' u) = selectionOf u \<or>
    selectionOf (onSquareClick_plain E sq' u) = (None, []) \<or>
    (\<exists>p. get E (game u) sq' = Some p \<and> pcolor p = turn E (game u) \<and>
        selectionOf (onSquareClick_plain E sq' u) =
          (Some sq', map vto (moves E (game u) (Some sq'))))"
    by (rule sel_click_plain)
qed

theorem selection_set_only_by_click_witness:
  "selectionOf (pageOf miniEngine miniStart White) = (None, []) \<and>
   selectionOf (step miniEngine (Click ''e2'' None) (pageOf miniEngine miniStart White)) =
     (Some ''e2'', [''e3'']) \<and>
   selectionOf (step miniEngine FlipBtn
                  (step miniEngine (Click ''e2'' None) (pageOf miniEngine miniStart White))) =
     (Some ''e2'', [''e3'']) \<and>
   selectionOf (step miniEngine UndoBtn
                  ((pageOf miniEngine afterE3 Black)
                     \<lparr>selectedSquare := Some ''e7'', possibleMoves := [''e6'']\<rparr>)) = (None, []) \<and>
   selectionOf (step_basic miniEngine (Timeout 0 0) thinkingPage_basic) = (Some ''e7'', [''e6'']) \<and>
   selectionOf (onSquareClick_plain miniEngine ''e2''
                  \<lparr>game = miniStart, selectedSquare = None, possibleMoves = [], children = []\<rparr>) =
     (Some ''e2'', [''e3''])"
proof -
  let ?s = "pageOf miniEngine miniStart White"
  let ?c = "step miniEngine (Click ''e2'' None) ?s"
  let ?b = "(pageOf miniEngine afterE3 Black)
              \<lparr>selectedSquare := Some ''e7'', possibleMoves := [''e6'']\<rparr>"
  let ?u = "\<lparr>game = miniStart, selectedSquare = None, possibleMoves = [], children = []\<rparr>"
  have mv: "map vto (moves miniEngine miniStart (Some ''e2'')) = [''e3'']"
    by (simp add: mini_defs)
  have st: "turn miniEngine miniStart = White"
    "get miniEngine miniStart ''e2'' = Some \<lparr>ptype = Pawn, pcolor = White\<rparr>"
    by (simp_all add: miniEngine_def miniStart_def)
  have s0: "selectionOf ?s = (None, [])" by (simp add: selectionOf_def)
  note w1 = selection_set_only_by_click [where E = miniEngine and ev = "Click ''e2'' None"
      and s = ?s and t = thinkingPage_basic and u = ?u and sq' = "''e2''"]
  note w2 = selection_set_only_by_click [where E = miniEngine and ev = FlipBtn
      and s = ?c and t = thinkingPage_basic and u = ?u and sq' = "''e2''"]
  note w3 = selection_set_only_by_click [where E = miniEngine and ev = UndoBtn
      and s = ?b and t = thinkingPage_basic and u = ?u and sq' = "''e2''"]
  note w4 = selection_set_only_by_click [where E = miniEngine and ev = "Timeout 0 0"
      and s = ?s and t = thinkingPage_basic and u = ?u and sq' = "''e2''"]
  have c: "selectionOf ?c = (Some ''e2'', [''e3''])"
    by (simp add: selectionOf_def onSquareClick_def moveBranch_def st mv)
  have f: "selectionOf (step miniEngine FlipBtn ?c) = (Some ''e2'', [''e3''])"
    using c by (simp add: sel_flip)
  have un: "undo miniEngine afterE3 = (miniStart, Some pawnE3)"
    by (simp add: miniEngine_def afterE3_undo)
  have b: "selectionOf (step miniEngine UndoBtn ?b) = (None, [])"
    by (simp add: undoLastMove_def un selectionOf_def)
  have k: "selectionOf (step_basic miniEngine (Timeout 0 0) thinkingPage_basic) =
             (Some ''e7'', [''e6''])"
    unfolding thinkStep_basic by (simp add: selectionOf_def)
  have p: "selectionOf (onSquareClick_plain miniEngine ''e2'' ?u) = (Some ''e2'', [''e3''])"
    by (simp add: selectionOf_def onSquareClick_plain_def moveBranch_def st mv)
  from w1 w2 w3 w4 s0 c f b k p show ?thesis by simp
qed

section \<open>The pages of the opponent's turn\<close>

lemma no_glyph_after_render: "AnimPiece k \<notin> set (children (renderBoard E s))"
  by (auto simp add: children_renderBoard children_rebuildBoard)

lemma find_square_page:
  "sq \<in> set boardSquares \<Longrightarrow>
     find (\<lambda>el. dataSquare el = Some sq) (children (pageOf E g c)) =
       Some (SquareEl sq (get E g sq \<noteq> None))"
  by (simp add: pageOf_def children_rebuildBoard find_square_rendered set_displaySquares)

lemma thinkingPage_eq:
  "thinkingPage = (pageOf miniEngine afterE3 White)\<lparr>aiThinking := True, timers := [Think]\<rparr>"
  by (simp add: thinkingPage_def triggerAiMove_def afterE3_facts)

lemma animatingPage_eq:
  "animatingPage =
     (pageOf miniEngine afterE3 White)
       \<lparr>aiThinking := True,
        children := clearSquare ''e7'' (children (pageOf miniEngine afterE3 White) @ [AnimPiece 0]),
        timers := [Anim pawnE6 0], fresh := Suc 0\<rparr>"
  by (simp add: animatingPage_def thinkingPage_eq dropTimer_def thinkTimeout_def afterE3_moves
      animateAIMove_def afterE3_facts find_square_page e7_e6_on_board
      afterCallback_def pawnE6_def [THEN arg_cong, of vfrom] pawnE6_def [THEN arg_cong, of vto])



section \<open>The opponent's turn\<close>













section \<open>Flipping the board during the animation\<close>

text \<open>
  C10.  In app_ai.js the flip button is not disabled while the opponent is busy.  Flipping
  the board during the animation redraws the board and removes the glyph, so that
  \<open>removeChild\<close> throws when the animation timer runs out: the callback is never called,
  the opponent's move is not played, the busy flag stays set and no timer is left to
  clear it.  Clicks on squares, undo and redo are then ignored.
\<close>

theorem flip_during_animation_stalls:
  "timers animatingPage = [Anim pawnE6 0] \<and>
   aiThinking animatingPage \<and>
   animTimeout miniEngine pawnE6 0 ((step miniEngine FlipBtn animatingPage)\<lparr>timers := []\<rparr>) =
     Inl (NotFoundError, (step miniEngine FlipBtn animatingPage)\<lparr>timers := []\<rparr>) \<and>
   timers (step miniEngine (Timeout 0 0) (step miniEngine FlipBtn animatingPage)) = [] \<and>
   aiThinking (step miniEngine (Timeout 0 0) (step miniEngine FlipBtn animatingPage)) \<and>
   game (step miniEngine (Timeout 0 0) (step miniEngine FlipBtn animatingPage)) = afterE3 \<and>
   history miniEngine afterE3 = [''e2e3''] \<and>
   onSquareClick miniEngine None ''e2''
     (step miniEngine (Timeout 0 0) (step miniEngine FlipBtn animatingPage)) =
     step miniEngine (Timeout 0 0) (step miniEngine FlipBtn animatingPage) \<and>
   undoLastMove miniEngine (step miniEngine (Timeout 0 0) (step miniEngine FlipBtn animatingPage)) =
     step miniEngine (Timeout 0 0) (step miniEngine FlipBtn animatingPage) \<and>
   redoMove miniEngine (step miniEngine (Timeout 0 0) (step miniEngine FlipBtn animatingPage)) =
     step miniEngine (Timeout 0 0) (step miniEngine FlipBtn animatingPage)"
proof -
  let ?f = "step miniEngine FlipBtn animatingPage"
  have a: "timers animatingPage = [Anim pawnE6 0]" "aiThinking animatingPage"
    "game animatingPage = afterE3"
    by (simp_all add: animatingPage_eq)
  have f: "timers ?f = [Anim pawnE6 0]" "aiThinking ?f" "game ?f = afterE3"
    "AnimPiece 0 \<notin> set (children ?f)"
    by (simp_all add: a flipBoard_def no_glyph_after_render game_renderBoard mini_simRestores)
  have t: "animTimeout miniEngine pawnE6 0 (?f\<lparr>timers := []\<rparr>) =
             Inl (NotFoundError, ?f\<lparr>timers := []\<rparr>)"
    using f(4) by (simp add: animTimeout_def)
  have s: "step miniEngine (Timeout 0 0) ?f = ?f\<lparr>timers := []\<rparr>"
    using f(1) t by (simp add: dropTimer_def afterCallback_def)
  have h: "history miniEngine afterE3 = [''e2e3'']"
    by (simp add: miniEngine_def afterE3_def pawnE3_def)
  have b: "aiThinking (?f\<lparr>timers := []\<rparr>)"
    using f(2) by simp
  have n: "onSquareClick miniEngine None ''e2'' (?f\<lparr>timers := []\<rparr>) = ?f\<lparr>timers := []\<rparr>"
    "undoLastMove miniEngine (?f\<lparr>timers := []\<rparr>) = ?f\<lparr>timers := []\<rparr>"
    "redoMove miniEngine (?f\<lparr>timers := []\<rparr>) = ?f\<lparr>timers := []\<rparr>"
    using b by (simp_all add: onSquareClick_def undoLastMove_def redoMove_def)
  from a f t h n show ?thesis unfolding s by simp
qed

end
